theory Spec2Isabelle
  imports Complex_Main
begin

section \<open>The HDF5 readers of eddylicious (readers/hdf5\_readers.py)\<close>

text \<open>
  The module has two functions. \<open>read_points_from_hdf5\<close> loads the two coordinate
  arrays of the group \<open>points\<close>, pads, trims and exchanges boundary rows.
  \<open>read_velocity_from_hdf5\<close> returns a closure \<open>read\<close> that loads the three velocity
  components at one time index, pads, interpolates and trims them.

  The embedding makes three things explicit that Python leaves implicit: the file
  system the HDF5 files live in (state that is passed in and returned), the exceptions
  (values of a sum type), and the difference between an h5py dataset handle, whose
  item assignment writes to the file, and a numpy array held in memory.
\<close>

subsection \<open>Floating-point values\<close>

text \<open>
  The code tests its optional parameters with \<open>np.isnan\<close>: a NaN means "not given".
  A value is either a NaN (IEEE has many of them; the payload tells them apart) or a
  finite number. Finite numbers are idealised as reals: rounding and overflow are outside
  the model. The only arithmetic of the module is \<open>v * 1.0\<close> and \<open>0.5 * (x + y)\<close>.
\<close>

datatype pyfloat = NaN nat | Fin real

fun isnan :: "pyfloat \<Rightarrow> bool" where
  "isnan (NaN p) = True"
| "isnan (Fin x) = False"

text \<open>The default \<open>float('nan')\<close> of the optional parameters.\<close>

definition float_nan :: pyfloat where
  "float_nan = NaN 0"

fun fmul :: "pyfloat \<Rightarrow> pyfloat \<Rightarrow> pyfloat" where
  "fmul (NaN p) y = NaN p"
| "fmul (Fin x) (NaN q) = NaN q"
| "fmul (Fin x) (Fin y) = Fin (x * y)"

fun fadd :: "pyfloat \<Rightarrow> pyfloat \<Rightarrow> pyfloat" where
  "fadd (NaN p) y = NaN p"
| "fadd (Fin x) (NaN q) = NaN q"
| "fadd (Fin x) (Fin y) = Fin (x + y)"

text \<open>The expression \<open>0.5*(x + y)\<close> of the interpolation, on one pair of entries.\<close>

definition half_sum :: "pyfloat \<Rightarrow> pyfloat \<Rightarrow> pyfloat" where
  "half_sum x y = fmul (Fin (1/2)) (fadd x y)"

subsection \<open>Two-dimensional arrays\<close>

text \<open>
  A 2D array of shape \<open>(nrows, ncols)\<close> is its list of rows together with the number of
  columns, which numpy also knows when there is no row.
\<close>

record array2 =
  ncols :: nat
  rows :: "pyfloat list list"

definition nrows :: "array2 \<Rightarrow> nat" where
  "nrows a = length (rows a)"

definition shape :: "array2 \<Rightarrow> nat \<times> nat" where
  "shape a = (nrows a, ncols a)"

datatype error = OSError | KeyError | IndexError | ValueError

text \<open>
  An integer index on an axis of length \<open>n\<close>: a negative index counts from the end, an
  index outside \<open>[-n, n)\<close> raises IndexError.
\<close>

definition norm_index :: "nat \<Rightarrow> int \<Rightarrow> nat option" where
  "norm_index n i =
     (if 0 \<le> i \<and> i < int n then Some (nat i)
      else if - int n \<le> i \<and> i < 0 then Some (nat (i + int n))
      else None)"

text \<open>
  A slice bound on an axis of length \<open>n\<close> never raises: a negative bound counts from the
  end, and the result is clamped to \<open>[0, n]\<close>.
\<close>

definition slice_bound :: "nat \<Rightarrow> int \<Rightarrow> nat" where
  "slice_bound n k = (if k < 0 then nat (max 0 (k + int n)) else min n (nat k))"

text \<open>\<open>a[i, :]\<close>\<close>

definition get_row :: "array2 \<Rightarrow> int \<Rightarrow> error + pyfloat list" where
  "get_row a i =
     (case norm_index (nrows a) i of
        None \<Rightarrow> Inl IndexError
      | Some j \<Rightarrow> Inr (rows a ! j))"

text \<open>\<open>a[i, :] = r\<close>\<close>

definition set_row :: "array2 \<Rightarrow> int \<Rightarrow> pyfloat list \<Rightarrow> error + array2" where
  "set_row a i r =
     (case norm_index (nrows a) i of
        None \<Rightarrow> Inl IndexError
      | Some j \<Rightarrow> Inr (a\<lparr>rows := (rows a)[j := r]\<rparr>))"

text \<open>\<open>a[i, :] = v\<close> with a scalar \<open>v\<close>, which numpy broadcasts over the row.\<close>

definition fill_row :: "array2 \<Rightarrow> int \<Rightarrow> pyfloat \<Rightarrow> error + array2" where
  "fill_row a i v = set_row a i (replicate (ncols a) v)"

text \<open>\<open>a[:k, :]\<close> and \<open>a[k:, :]\<close>\<close>

definition rows_upto :: "array2 \<Rightarrow> int \<Rightarrow> array2" where
  "rows_upto a k = a\<lparr>rows := take (slice_bound (nrows a) k) (rows a)\<rparr>"

definition rows_from :: "array2 \<Rightarrow> int \<Rightarrow> array2" where
  "rows_from a k = a\<lparr>rows := drop (slice_bound (nrows a) k) (rows a)\<rparr>"

text \<open>\<open>v*np.ones((1, n))\<close>\<close>

definition const_row :: "pyfloat \<Rightarrow> nat \<Rightarrow> array2" where
  "const_row v n = \<lparr>ncols = n, rows = [map (fmul v) (replicate n (Fin 1))]\<rparr>"

text \<open>\<open>np.array([a[i, :]])\<close>: row \<open>i\<close> as an array of one row.\<close>

definition row_array :: "array2 \<Rightarrow> int \<Rightarrow> error + array2" where
  "row_array a i =
     (case get_row a i of
        Inl e \<Rightarrow> Inl e
      | Inr r \<Rightarrow> Inr \<lparr>ncols = ncols a, rows = [r]\<rparr>)"

text \<open>\<open>np.append(a, b, axis=0)\<close>: the column counts must agree.\<close>

definition np_append :: "array2 \<Rightarrow> array2 \<Rightarrow> error + array2" where
  "np_append a b =
     (if ncols a = ncols b then Inr \<lparr>ncols = ncols a, rows = rows a @ rows b\<rparr>
      else Inl ValueError)"

subsection \<open>The store\<close>

text \<open>
  A file has the layout the readers expect: a group \<open>points\<close> of 2D datasets and a group
  \<open>velocity\<close> of 3D datasets (a list of 2D arrays, one per time index). Either group
  and any dataset may be missing. The file system maps a path to its file.
\<close>

record h5file =
  grp_points :: "(string \<rightharpoonup> array2) option"
  grp_velocity :: "(string \<rightharpoonup> array2 list) option"

type_synonym filesystem = "string \<rightharpoonup> h5file"

definition empty_file :: h5file where
  "empty_file = \<lparr>grp_points = None, grp_velocity = None\<rparr>"

datatype mode = ModeR | ModeA

text \<open>
  \<open>h5py.File(path, mode)\<close>. Mode \<open>'r'\<close> is read-only and the file must exist; mode
  \<open>'a'\<close> is read/write and creates the file when it does not exist.
\<close>

definition h5_File :: "filesystem \<Rightarrow> string \<Rightarrow> mode \<Rightarrow> filesystem \<times> (error + h5file)" where
  "h5_File fs path m =
     (case fs path of
        Some f \<Rightarrow> (fs, Inr f)
      | None \<Rightarrow>
          (case m of
             ModeR \<Rightarrow> (fs, Inl OSError)
           | ModeA \<Rightarrow> (fs(path \<mapsto> empty_file), Inr empty_file)))"

text \<open>The content of dataset \<open>name\<close> of the group \<open>points\<close>; a missing name is a KeyError.\<close>

definition points_lookup :: "h5file \<Rightarrow> string \<Rightarrow> error + array2" where
  "points_lookup f name =
     (case grp_points f of
        None \<Rightarrow> Inl KeyError
      | Some g \<Rightarrow> (case g name of None \<Rightarrow> Inl KeyError | Some a \<Rightarrow> Inr a))"

definition points_store :: "h5file \<Rightarrow> string \<Rightarrow> array2 \<Rightarrow> h5file" where
  "points_store f name a =
     (case grp_points f of
        None \<Rightarrow> f
      | Some g \<Rightarrow> f\<lparr>grp_points := Some (g(name \<mapsto> a))\<rparr>)"

text \<open>\<open>dbFile["velocity"][name][timeIndex, :, :]\<close>\<close>

definition velocity_slice :: "h5file \<Rightarrow> string \<Rightarrow> int \<Rightarrow> error + array2" where
  "velocity_slice f name timeIndex =
     (case grp_velocity f of
        None \<Rightarrow> Inl KeyError
      | Some g \<Rightarrow>
          (case g name of
             None \<Rightarrow> Inl KeyError
           | Some ts \<Rightarrow>
               (case norm_index (length ts) timeIndex of
                  None \<Rightarrow> Inl IndexError
                | Some i \<Rightarrow> Inr (ts ! i))))"

subsection \<open>Array variables of the points reader\<close>

text \<open>
  \<open>dbFile["points"]["pointsY"]\<close> is a dataset handle, not an array. Slicing it or
  passing it to \<open>np.append\<close> reads the file and yields a numpy array; assigning to an item
  of it writes to the file. A variable of the points reader therefore holds either a
  handle or an array in memory.
\<close>

datatype arr = Dataset string | Ndarray array2

text \<open>\<open>dbFile["points"][name]\<close>\<close>

definition points_dataset :: "h5file \<Rightarrow> string \<Rightarrow> error + arr" where
  "points_dataset f name =
     (case points_lookup f name of
        Inl e \<Rightarrow> Inl e
      | Inr a \<Rightarrow> Inr (Dataset name))"

text \<open>The content of a variable: of a handle, what the file holds now.\<close>

fun arr_read :: "h5file \<Rightarrow> arr \<Rightarrow> error + array2" where
  "arr_read f (Dataset name) = points_lookup f name"
| "arr_read f (Ndarray a) = Inr a"

text \<open>
  \<open>x[i, :] = v\<close> on a variable: in memory for an array, in the file for a handle (the
  points reader opens its file in mode \<open>'a'\<close>).
\<close>

fun arr_fill_row :: "h5file \<Rightarrow> arr \<Rightarrow> int \<Rightarrow> pyfloat \<Rightarrow> h5file \<times> (error + arr)" where
  "arr_fill_row f (Ndarray a) i v =
     (case fill_row a i v of
        Inl e \<Rightarrow> (f, Inl e)
      | Inr a' \<Rightarrow> (f, Inr (Ndarray a')))"
| "arr_fill_row f (Dataset name) i v =
     (case points_lookup f name of
        Inl e \<Rightarrow> (f, Inl e)
      | Inr a \<Rightarrow>
          (case fill_row a i v of
             Inl e \<Rightarrow> (f, Inl e)
           | Inr a' \<Rightarrow> (points_store f name a', Inr (Dataset name))))"

subsection \<open>The points reader\<close>

type_synonym points = "arr \<times> arr"

text \<open>Lines 64--65: the two handles; a missing group or dataset raises KeyError.\<close>

definition load_points :: "h5file \<Rightarrow> error + points" where
  "load_points dbFile =
     (case points_dataset dbFile ''pointsY'' of
        Inl e \<Rightarrow> Inl e
      | Inr pointsY \<Rightarrow>
          (case points_dataset dbFile ''pointsZ'' of
             Inl e \<Rightarrow> Inl e
           | Inr pointsZ \<Rightarrow> Inr (pointsY, pointsZ)))"

text \<open>Lines 70--72: a row of \<open>addValBot\<close> below \<open>pointsY\<close>, a copy of row 0 below \<open>pointsZ\<close>.\<close>

definition add_bot :: "h5file \<Rightarrow> pyfloat \<Rightarrow> nat \<Rightarrow> points \<Rightarrow> error + points" where
  "add_bot dbFile addValBot nPointsZ p =
     (case p of (pointsY, pointsZ) \<Rightarrow>
        if isnan addValBot then Inr p
        else
          (case arr_read dbFile pointsY of
             Inl e \<Rightarrow> Inl e
           | Inr y \<Rightarrow>
          (case np_append (const_row addValBot nPointsZ) y of
             Inl e \<Rightarrow> Inl e
           | Inr y' \<Rightarrow>
          (case arr_read dbFile pointsZ of
             Inl e \<Rightarrow> Inl e
           | Inr z \<Rightarrow>
          (case row_array z 0 of
             Inl e \<Rightarrow> Inl e
           | Inr z0 \<Rightarrow>
          (case np_append z0 z of
             Inl e \<Rightarrow> Inl e
           | Inr z' \<Rightarrow> Inr (Ndarray y', Ndarray z')))))))"

text \<open>
  Lines 73--75: a row of \<open>addValTop\<close> above \<open>pointsY\<close>, and above \<open>pointsZ\<close> a copy of
  its row 0 (the source reads \<open>pointsZ[0, :]\<close> here too).
\<close>

definition add_top :: "h5file \<Rightarrow> pyfloat \<Rightarrow> nat \<Rightarrow> points \<Rightarrow> error + points" where
  "add_top dbFile addValTop nPointsZ p =
     (case p of (pointsY, pointsZ) \<Rightarrow>
        if isnan addValTop then Inr p
        else
          (case arr_read dbFile pointsY of
             Inl e \<Rightarrow> Inl e
           | Inr y \<Rightarrow>
          (case np_append y (const_row addValTop nPointsZ) of
             Inl e \<Rightarrow> Inl e
           | Inr y' \<Rightarrow>
          (case arr_read dbFile pointsZ of
             Inl e \<Rightarrow> Inl e
           | Inr z \<Rightarrow>
          (case row_array z 0 of
             Inl e \<Rightarrow> Inl e
           | Inr z0 \<Rightarrow>
          (case np_append z z0 of
             Inl e \<Rightarrow> Inl e
           | Inr z' \<Rightarrow> Inr (Ndarray y', Ndarray z')))))))"

text \<open>Lines 67--75: \<open>nPointsZ\<close> is read from \<open>pointsY\<close> before any padding.\<close>

definition add_points :: "h5file \<Rightarrow> pyfloat \<Rightarrow> pyfloat \<Rightarrow> points \<Rightarrow> error + points" where
  "add_points dbFile addValBot addValTop p =
     (case arr_read dbFile (fst p) of
        Inl e \<Rightarrow> Inl e
      | Inr y \<Rightarrow>
          (case add_bot dbFile addValBot (ncols y) p of
             Inl e \<Rightarrow> Inl e
           | Inr p1 \<Rightarrow> add_top dbFile addValTop (ncols y) p1))"

text \<open>\<open>x[:k, :]\<close> and \<open>x[k:, :]\<close> on a variable: the result is an array in memory.\<close>

definition arr_upto :: "h5file \<Rightarrow> arr \<Rightarrow> int \<Rightarrow> error + arr" where
  "arr_upto f x k =
     (case arr_read f x of Inl e \<Rightarrow> Inl e | Inr a \<Rightarrow> Inr (Ndarray (rows_upto a k)))"

definition arr_from :: "h5file \<Rightarrow> arr \<Rightarrow> int \<Rightarrow> error + arr" where
  "arr_from f x k =
     (case arr_read f x of Inl e \<Rightarrow> Inl e | Inr a \<Rightarrow> Inr (Ndarray (rows_from a k)))"

text \<open>Lines 80--82 and 84--86: one slice of both variables.\<close>

definition cap_top :: "h5file \<Rightarrow> int \<Rightarrow> int \<Rightarrow> points \<Rightarrow> error + points" where
  "cap_top dbFile nPointsY excludeTop p =
     (case p of (pointsY, pointsZ) \<Rightarrow>
        if excludeTop = 0 then Inr p
        else
          (case arr_upto dbFile pointsY (nPointsY - excludeTop) of
             Inl e \<Rightarrow> Inl e
           | Inr pointsY' \<Rightarrow>
          (case arr_upto dbFile pointsZ (nPointsY - excludeTop) of
             Inl e \<Rightarrow> Inl e
           | Inr pointsZ' \<Rightarrow> Inr (pointsY', pointsZ'))))"

definition cap_bot :: "h5file \<Rightarrow> int \<Rightarrow> points \<Rightarrow> error + points" where
  "cap_bot dbFile excludeBot p =
     (case p of (pointsY, pointsZ) \<Rightarrow>
        if excludeBot = 0 then Inr p
        else
          (case arr_from dbFile pointsY excludeBot of
             Inl e \<Rightarrow> Inl e
           | Inr pointsY' \<Rightarrow>
          (case arr_from dbFile pointsZ excludeBot of
             Inl e \<Rightarrow> Inl e
           | Inr pointsZ' \<Rightarrow> Inr (pointsY', pointsZ'))))"

text \<open>Lines 79--86: \<open>nPointsY\<close> is the row count of \<open>pointsY\<close> after the padding.\<close>

definition cap_points :: "h5file \<Rightarrow> int \<Rightarrow> int \<Rightarrow> points \<Rightarrow> error + points" where
  "cap_points dbFile excludeBot excludeTop p =
     (case arr_read dbFile (fst p) of
        Inl e \<Rightarrow> Inl e
      | Inr y \<Rightarrow>
          (case cap_top dbFile (int (nrows y)) excludeTop p of
             Inl e \<Rightarrow> Inl e
           | Inr p1 \<Rightarrow> cap_bot dbFile excludeBot p1))"

text \<open>
  Lines 88--92: the first and the last row of \<open>pointsY\<close> are overwritten. The
  assignment goes to whatever \<open>pointsY\<close> is at this point: the handle, when nothing was
  padded or trimmed.
\<close>

definition exchange_points ::
  "h5file \<Rightarrow> pyfloat \<Rightarrow> pyfloat \<Rightarrow> points \<Rightarrow> h5file \<times> (error + points)" where
  "exchange_points dbFile exchangeValBot exchangeValTop p =
     (case p of (pointsY, pointsZ) \<Rightarrow>
        (case (if isnan exchangeValBot then (dbFile, Inr pointsY)
               else arr_fill_row dbFile pointsY 0 exchangeValBot) of
           (f1, Inl e) \<Rightarrow> (f1, Inl e)
         | (f1, Inr pointsY1) \<Rightarrow>
             (case (if isnan exchangeValTop then (f1, Inr pointsY1)
                    else arr_fill_row f1 pointsY1 (- 1) exchangeValTop) of
                (f2, Inl e) \<Rightarrow> (f2, Inl e)
              | (f2, Inr pointsY2) \<Rightarrow> (f2, Inr (pointsY2, pointsZ)))))"

text \<open>
  The reader: the file system before the call goes in, the file system after the call
  comes out together with the exception or the returned pair.
\<close>

definition read_points_from_hdf5 ::
  "filesystem \<Rightarrow> string \<Rightarrow> pyfloat \<Rightarrow> pyfloat \<Rightarrow> int \<Rightarrow> int \<Rightarrow> pyfloat \<Rightarrow> pyfloat
     \<Rightarrow> filesystem \<times> (error + points)" where
  "read_points_from_hdf5 fs readPath addValBot addValTop excludeBot excludeTop
       exchangeValBot exchangeValTop =
     (case h5_File fs readPath ModeA of
        (fs1, Inl e) \<Rightarrow> (fs1, Inl e)
      | (fs1, Inr dbFile) \<Rightarrow>
          (case load_points dbFile of
             Inl e \<Rightarrow> (fs1, Inl e)
           | Inr p0 \<Rightarrow>
          (case add_points dbFile addValBot addValTop p0 of
             Inl e \<Rightarrow> (fs1, Inl e)
           | Inr p1 \<Rightarrow>
          (case cap_points dbFile excludeBot excludeTop p1 of
             Inl e \<Rightarrow> (fs1, Inl e)
           | Inr p2 \<Rightarrow>
          (case exchange_points dbFile exchangeValBot exchangeValTop p2 of
             (dbFile', r) \<Rightarrow> (fs1(readPath \<mapsto> dbFile'), r))))))"

text \<open>
  What a returned variable holds, read in the file system the call left behind.
\<close>

definition points_value :: "filesystem \<Rightarrow> string \<Rightarrow> arr \<Rightarrow> error + array2" where
  "points_value fs readPath x =
     (case fs readPath of None \<Rightarrow> Inl OSError | Some f \<Rightarrow> arr_read f x)"

subsection \<open>The velocity reader\<close>

type_synonym velocity = "array2 \<times> array2 \<times> array2"

text \<open>
  Every step of \<open>read\<close> is three statements, one for \<open>uX\<close>, \<open>uY\<close> and \<open>uZ\<close> in this
  order; the first that raises ends the call.
\<close>

definition each3 :: "(array2 \<Rightarrow> error + array2) \<Rightarrow> velocity \<Rightarrow> error + velocity" where
  "each3 g u =
     (case u of (uX, uY, uZ) \<Rightarrow>
        (case g uX of
           Inl e \<Rightarrow> Inl e
         | Inr uX' \<Rightarrow>
        (case g uY of
           Inl e \<Rightarrow> Inl e
         | Inr uY' \<Rightarrow>
        (case g uZ of
           Inl e \<Rightarrow> Inl e
         | Inr uZ' \<Rightarrow> Inr (uX', uY', uZ')))))"

text \<open>Lines 155--157.\<close>

definition load_velocity :: "h5file \<Rightarrow> int \<Rightarrow> error + velocity" where
  "load_velocity dbFile timeIndex =
     (case velocity_slice dbFile ''uX'' timeIndex of
        Inl e \<Rightarrow> Inl e
      | Inr uX \<Rightarrow>
     (case velocity_slice dbFile ''uY'' timeIndex of
        Inl e \<Rightarrow> Inl e
      | Inr uY \<Rightarrow>
     (case velocity_slice dbFile ''uZ'' timeIndex of
        Inl e \<Rightarrow> Inl e
      | Inr uZ \<Rightarrow> Inr (uX, uY, uZ))))"

text \<open>Lines 159--169: \<open>nPointsZ\<close> is the column count of \<open>uX\<close>.\<close>

definition add_velocity :: "pyfloat \<Rightarrow> pyfloat \<Rightarrow> velocity \<Rightarrow> error + velocity" where
  "add_velocity addValBot addValTop u =
     (let nPointsZ = ncols (fst u) in
        (case (if isnan addValBot then Inr u
               else each3 (np_append (const_row addValBot nPointsZ)) u) of
           Inl e \<Rightarrow> Inl e
         | Inr u1 \<Rightarrow>
             (if isnan addValTop then Inr u1
              else each3 (\<lambda>a. np_append a (const_row addValTop nPointsZ)) u1)))"

text \<open>\<open>a[i, :] = 0.5*(a[j, :] + a[k, :])\<close>: both rows are read, then row \<open>i\<close> is written.\<close>

definition interp_rows :: "array2 \<Rightarrow> int \<Rightarrow> int \<Rightarrow> int \<Rightarrow> error + array2" where
  "interp_rows a i j k =
     (case get_row a j of
        Inl e \<Rightarrow> Inl e
      | Inr rj \<Rightarrow>
          (case get_row a k of
             Inl e \<Rightarrow> Inl e
           | Inr rk \<Rightarrow> set_row a i (map2 half_sum rj rk)))"

text \<open>Lines 174--190: the two interpolations, the top one first, both in place.\<close>

definition interp_velocity ::
  "bool \<Rightarrow> bool \<Rightarrow> int \<Rightarrow> int \<Rightarrow> int \<Rightarrow> velocity \<Rightarrow> error + velocity" where
  "interp_velocity interpValBot interpValTop excludeBot excludeTop topmostPoint u =
     (case (if interpValTop \<and> excludeTop \<noteq> 0
            then each3 (\<lambda>a. interp_rows a (topmostPoint - 1) (topmostPoint - 1) topmostPoint) u
            else Inr u) of
        Inl e \<Rightarrow> Inl e
      | Inr u1 \<Rightarrow>
          (if interpValBot \<and> excludeBot \<noteq> 0
           then each3 (\<lambda>a. interp_rows a excludeBot (excludeBot - 1) excludeBot) u1
           else Inr u1))"

text \<open>Lines 192--201.\<close>

definition cap_array :: "int \<Rightarrow> int \<Rightarrow> int \<Rightarrow> array2 \<Rightarrow> array2" where
  "cap_array excludeBot excludeTop topmostPoint a =
     (let a1 = (if excludeTop \<noteq> 0 then rows_upto a topmostPoint else a)
      in if excludeBot \<noteq> 0 then rows_from a1 excludeBot else a1)"

definition cap_velocity :: "int \<Rightarrow> int \<Rightarrow> int \<Rightarrow> velocity \<Rightarrow> velocity" where
  "cap_velocity excludeBot excludeTop topmostPoint u =
     (case u of (uX, uY, uZ) \<Rightarrow>
        (cap_array excludeBot excludeTop topmostPoint uX,
         cap_array excludeBot excludeTop topmostPoint uY,
         cap_array excludeBot excludeTop topmostPoint uZ))"

text \<open>
  The closure \<open>read\<close>, with the configuration it captures as its first arguments. It
  opens the file in mode \<open>'r'\<close> and works on the arrays that the slices of lines
  155--157 copy into memory.
\<close>

definition read ::
  "string \<Rightarrow> pyfloat \<Rightarrow> pyfloat \<Rightarrow> int \<Rightarrow> int \<Rightarrow> bool \<Rightarrow> bool
     \<Rightarrow> filesystem \<Rightarrow> int \<Rightarrow> filesystem \<times> (error + velocity)" where
  "read readPath addValBot addValTop excludeBot excludeTop interpValBot interpValTop
       fs timeIndex =
     (case h5_File fs readPath ModeR of
        (fs1, Inl e) \<Rightarrow> (fs1, Inl e)
      | (fs1, Inr dbFile) \<Rightarrow>
          (fs1,
           (case load_velocity dbFile timeIndex of
              Inl e \<Rightarrow> Inl e
            | Inr u0 \<Rightarrow>
           (case add_velocity addValBot addValTop u0 of
              Inl e \<Rightarrow> Inl e
            | Inr u1 \<Rightarrow>
                (let nPointsY = int (nrows (fst u1));
                     topmostPoint = nPointsY - excludeTop
                 in (case interp_velocity interpValBot interpValTop excludeBot excludeTop
                            topmostPoint u1 of
                       Inl e \<Rightarrow> Inl e
                     | Inr u2 \<Rightarrow>
                         Inr (cap_velocity excludeBot excludeTop topmostPoint u2)))))))"

text \<open>The factory returns the closure with its attribute \<open>reader = "hdf5"\<close>.\<close>

record reader_fn =
  call :: "filesystem \<Rightarrow> int \<Rightarrow> filesystem \<times> (error + velocity)"
  reader :: string

definition read_velocity_from_hdf5 ::
  "string \<Rightarrow> pyfloat \<Rightarrow> pyfloat \<Rightarrow> int \<Rightarrow> int \<Rightarrow> bool \<Rightarrow> bool \<Rightarrow> reader_fn" where
  "read_velocity_from_hdf5 readPath addValBot addValTop excludeBot excludeTop
       interpValBot interpValTop =
     \<lparr>call = read readPath addValBot addValTop excludeBot excludeTop interpValBot interpValTop,
      reader = ''hdf5''\<rparr>"

subsection \<open>A small store for concrete runs\<close>

definition ex_pointsY :: array2 where
  "ex_pointsY = \<lparr>ncols = 2, rows = [[Fin 1, Fin 1], [Fin 2, Fin 2], [Fin 3, Fin 3]]\<rparr>"

definition ex_pointsZ :: array2 where
  "ex_pointsZ = \<lparr>ncols = 2, rows = [[Fin 5, Fin 6], [Fin 7, Fin 8], [Fin 9, Fin 10]]\<rparr>"

definition ex_u :: array2 where
  "ex_u = \<lparr>ncols = 2, rows = [[Fin 8, Fin 8], [Fin 2, Fin 2], [Fin 4, Fin 4]]\<rparr>"

definition ex_file :: h5file where
  "ex_file =
     \<lparr>grp_points = Some [''pointsY'' \<mapsto> ex_pointsY, ''pointsZ'' \<mapsto> ex_pointsZ],
      grp_velocity = Some [''uX'' \<mapsto> [ex_u], ''uY'' \<mapsto> [ex_u], ''uZ'' \<mapsto> [ex_u]]\<rparr>"

definition ex_fs :: filesystem where
  "ex_fs = [''db.hdf5'' \<mapsto> ex_file]"

text \<open>A store whose two coordinate arrays have no row (shape \<open>(0, 2)\<close>).\<close>

definition ex_empty_file :: h5file where
  "ex_empty_file =
     \<lparr>grp_points = Some [''pointsY'' \<mapsto> \<lparr>ncols = 2, rows = []\<rparr>,
                          ''pointsZ'' \<mapsto> \<lparr>ncols = 2, rows = []\<rparr>],
      grp_velocity = None\<rparr>"

definition ex_empty_fs :: filesystem where
  "ex_empty_fs = [''db.hdf5'' \<mapsto> ex_empty_file]"

section \<open>Properties of the velocity reader\<close>

lemmas velocity_run =
  read_velocity_from_hdf5_def read_def h5_File_def load_velocity_def velocity_slice_def
  add_velocity_def interp_velocity_def each3_def interp_rows_def get_row_def set_row_def
  norm_index_def nrows_def cap_velocity_def cap_array_def rows_upto_def rows_from_def
  slice_bound_def np_append_def const_row_def half_sum_def ex_fs_def ex_file_def ex_u_def
  float_nan_def

lemma read_keeps_filesystem:
  "fst (read readPath addValBot addValTop excludeBot excludeTop interpValBot interpValTop
          fs timeIndex) = fs"
  by (simp add: read_def h5_File_def split: option.splits)

text \<open>
  C9. The closure is deterministic and stateless: a call leaves the file system as it
  found it, so a second call with the same time index, made after the first, returns the
  same outcome (the same triple, or the same exception).
\<close>

theorem read_twice_same:
  assumes "call (read_velocity_from_hdf5 readPath addValBot addValTop excludeBot excludeTop
                   interpValBot interpValTop) fs timeIndex = (fs1, r1)"
    and "call (read_velocity_from_hdf5 readPath addValBot addValTop excludeBot excludeTop
                   interpValBot interpValTop) fs1 timeIndex = (fs2, r2)"
  shows "fs1 = fs \<and> fs2 = fs \<and> r2 = r1"
proof -
  have "fs1 = fs"
    using assms(1) read_keeps_filesystem [of readPath addValBot addValTop excludeBot excludeTop
        interpValBot interpValTop fs timeIndex]
    by (simp add: read_velocity_from_hdf5_def)
  with assms show ?thesis
    by (simp add: read_velocity_from_hdf5_def)
qed

theorem read_twice_same_witness:
  "call (read_velocity_from_hdf5 ''db.hdf5'' float_nan float_nan 1 0 True False) ex_fs 0 =
     (ex_fs, Inr (\<lparr>ncols = 2, rows = [[Fin 5, Fin 5], [Fin 4, Fin 4]]\<rparr>,
                  \<lparr>ncols = 2, rows = [[Fin 5, Fin 5], [Fin 4, Fin 4]]\<rparr>,
                  \<lparr>ncols = 2, rows = [[Fin 5, Fin 5], [Fin 4, Fin 4]]\<rparr>))"
proof -
  have run:
    "call (read_velocity_from_hdf5 ''db.hdf5'' float_nan float_nan 1 0 True False) ex_fs 0 =
       (ex_fs, Inr (\<lparr>ncols = 2, rows = [[Fin 5, Fin 5], [Fin 4, Fin 4]]\<rparr>,
                    \<lparr>ncols = 2, rows = [[Fin 5, Fin 5], [Fin 4, Fin 4]]\<rparr>,
                    \<lparr>ncols = 2, rows = [[Fin 5, Fin 5], [Fin 4, Fin 4]]\<rparr>))"
    by (simp add: velocity_run)
  from read_twice_same [OF run run] run show ?thesis
    by simp
qed

section \<open>NaN as the unset value\<close>

lemma add_bot_nan: "isnan v \<Longrightarrow> add_bot dbFile v n p = Inr p"
  by (simp add: add_bot_def split: prod.splits)

lemma add_top_nan: "isnan v \<Longrightarrow> add_top dbFile v n p = Inr p"
  by (simp add: add_top_def split: prod.splits)

lemma exchange_points_nan:
  "isnan v \<Longrightarrow> isnan w \<Longrightarrow> exchange_points dbFile v w p = (dbFile, Inr p)"
  by (simp add: exchange_points_def split: prod.splits)

lemma exchange_points_nan_bot:
  "isnan v \<Longrightarrow> exchange_points dbFile v w p = exchange_points dbFile float_nan w p"
  by (simp add: exchange_points_def float_nan_def split: prod.splits)

lemma exchange_points_nan_top:
  "isnan v \<Longrightarrow> exchange_points dbFile w v p = exchange_points dbFile w float_nan p"
  by (simp add: exchange_points_def float_nan_def split: prod.splits)

lemma add_points_nan_bot:
  "isnan v \<Longrightarrow> add_points dbFile v w p = add_points dbFile float_nan w p"
  by (simp add: add_points_def add_bot_nan float_nan_def split: sum.splits)

lemma add_points_nan_top:
  "isnan v \<Longrightarrow> add_points dbFile w v p = add_points dbFile w float_nan p"
  by (simp add: add_points_def add_top_nan float_nan_def split: sum.splits)

lemma add_velocity_nan: "isnan v \<Longrightarrow> isnan w \<Longrightarrow> add_velocity v w u = Inr u"
  by (simp add: add_velocity_def)

lemma add_velocity_nan_bot: "isnan v \<Longrightarrow> add_velocity v w u = add_velocity float_nan w u"
  by (simp add: add_velocity_def float_nan_def)

lemma add_velocity_nan_top: "isnan v \<Longrightarrow> add_velocity w v u = add_velocity w float_nan u"
  by (simp add: add_velocity_def float_nan_def Let_def split: sum.splits)

lemma nan_unset_parts:
  assumes "isnan v"
  shows "read_points_from_hdf5 fs readPath v addValTop excludeBot excludeTop exchangeValBot exchangeValTop
           = read_points_from_hdf5 fs readPath float_nan addValTop excludeBot excludeTop exchangeValBot exchangeValTop"
    and "read_points_from_hdf5 fs readPath addValBot v excludeBot excludeTop exchangeValBot exchangeValTop
           = read_points_from_hdf5 fs readPath addValBot float_nan excludeBot excludeTop exchangeValBot exchangeValTop"
    and "read_points_from_hdf5 fs readPath addValBot addValTop excludeBot excludeTop v exchangeValTop
           = read_points_from_hdf5 fs readPath addValBot addValTop excludeBot excludeTop float_nan exchangeValTop"
    and "read_points_from_hdf5 fs readPath addValBot addValTop excludeBot excludeTop exchangeValBot v
           = read_points_from_hdf5 fs readPath addValBot addValTop excludeBot excludeTop exchangeValBot float_nan"
    and "call (read_velocity_from_hdf5 readPath v addValTop excludeBot excludeTop interpValBot interpValTop)
           = call (read_velocity_from_hdf5 readPath float_nan addValTop excludeBot excludeTop interpValBot interpValTop)"
    and "call (read_velocity_from_hdf5 readPath addValBot v excludeBot excludeTop interpValBot interpValTop)
           = call (read_velocity_from_hdf5 readPath addValBot float_nan excludeBot excludeTop interpValBot interpValTop)"
    and "add_bot dbFile v n p = Inr p" and "add_top dbFile v n p = Inr p"
    and "exchange_points dbFile v v p = (dbFile, Inr p)"
    and "add_velocity v v u = Inr u"
proof -
  note eqs = add_points_nan_bot [OF assms] add_points_nan_top [OF assms]
    exchange_points_nan_bot [OF assms] exchange_points_nan_top [OF assms]
    add_velocity_nan_bot [OF assms] add_velocity_nan_top [OF assms]
  show "read_points_from_hdf5 fs readPath v addValTop excludeBot excludeTop exchangeValBot exchangeValTop
           = read_points_from_hdf5 fs readPath float_nan addValTop excludeBot excludeTop exchangeValBot exchangeValTop"
    unfolding read_points_from_hdf5_def eqs(1) by (rule refl)
  show "read_points_from_hdf5 fs readPath addValBot v excludeBot excludeTop exchangeValBot exchangeValTop
           = read_points_from_hdf5 fs readPath addValBot float_nan excludeBot excludeTop exchangeValBot exchangeValTop"
    unfolding read_points_from_hdf5_def eqs(2) by (rule refl)
  show "read_points_from_hdf5 fs readPath addValBot addValTop excludeBot excludeTop v exchangeValTop
           = read_points_from_hdf5 fs readPath addValBot addValTop excludeBot excludeTop float_nan exchangeValTop"
    unfolding read_points_from_hdf5_def eqs(3) by (rule refl)
  show "read_points_from_hdf5 fs readPath addValBot addValTop excludeBot excludeTop exchangeValBot v
           = read_points_from_hdf5 fs readPath addValBot addValTop excludeBot excludeTop exchangeValBot float_nan"
    unfolding read_points_from_hdf5_def eqs(4) by (rule refl)
  show "call (read_velocity_from_hdf5 readPath v addValTop excludeBot excludeTop interpValBot interpValTop)
           = call (read_velocity_from_hdf5 readPath float_nan addValTop excludeBot excludeTop interpValBot interpValTop)"
    unfolding read_velocity_from_hdf5_def read_def eqs(5) by (rule refl)
  show "call (read_velocity_from_hdf5 readPath addValBot v excludeBot excludeTop interpValBot interpValTop)
           = call (read_velocity_from_hdf5 readPath addValBot float_nan excludeBot excludeTop interpValBot interpValTop)"
    unfolding read_velocity_from_hdf5_def read_def eqs(6) by (rule refl)
  show "add_bot dbFile v n p = Inr p" "add_top dbFile v n p = Inr p"
    "exchange_points dbFile v v p = (dbFile, Inr p)" "add_velocity v v u = Inr u"
    using assms by (simp_all add: add_bot_nan add_top_nan exchange_points_nan add_velocity_nan)
qed


text \<open>
  C10. NaN is the "unset" value of the optional parameters. A call that passes any NaN
  for \<open>addValBot\<close>, \<open>addValTop\<close>, \<open>exchangeValBot\<close> or \<open>exchangeValTop\<close> is the call
  that passes the default \<open>float('nan')\<close>, for both readers; and with a NaN no row is
  added (the padding steps return their input) and no row is exchanged.
\<close>

theorem nan_is_unset:
  assumes "isnan v"
  shows "read_points_from_hdf5 fs readPath v addValTop excludeBot excludeTop exchangeValBot exchangeValTop
           = read_points_from_hdf5 fs readPath float_nan addValTop excludeBot excludeTop exchangeValBot exchangeValTop
    \<and> read_points_from_hdf5 fs readPath addValBot v excludeBot excludeTop exchangeValBot exchangeValTop
           = read_points_from_hdf5 fs readPath addValBot float_nan excludeBot excludeTop exchangeValBot exchangeValTop
    \<and> read_points_from_hdf5 fs readPath addValBot addValTop excludeBot excludeTop v exchangeValTop
           = read_points_from_hdf5 fs readPath addValBot addValTop excludeBot excludeTop float_nan exchangeValTop
    \<and> read_points_from_hdf5 fs readPath addValBot addValTop excludeBot excludeTop exchangeValBot v
           = read_points_from_hdf5 fs readPath addValBot addValTop excludeBot excludeTop exchangeValBot float_nan
    \<and> call (read_velocity_from_hdf5 readPath v addValTop excludeBot excludeTop interpValBot interpValTop)
           = call (read_velocity_from_hdf5 readPath float_nan addValTop excludeBot excludeTop interpValBot interpValTop)
    \<and> call (read_velocity_from_hdf5 readPath addValBot v excludeBot excludeTop interpValBot interpValTop)
           = call (read_velocity_from_hdf5 readPath addValBot float_nan excludeBot excludeTop interpValBot interpValTop)
    \<and> add_bot dbFile v n p = Inr p \<and> add_top dbFile v n p = Inr p
    \<and> exchange_points dbFile v v p = (dbFile, Inr p)
    \<and> add_velocity v v u = Inr u"
  by (intro conjI nan_unset_parts [OF assms])

lemmas points_run =
  read_points_from_hdf5_def h5_File_def load_points_def points_dataset_def points_lookup_def
  points_store_def add_points_def add_bot_def add_top_def cap_points_def cap_top_def cap_bot_def
  arr_upto_def arr_from_def exchange_points_def fill_row_def set_row_def get_row_def row_array_def
  norm_index_def nrows_def rows_upto_def rows_from_def slice_bound_def np_append_def const_row_def
  points_value_def ex_fs_def ex_file_def ex_pointsY_def ex_pointsZ_def float_nan_def

theorem nan_is_unset_witness:
  "isnan (NaN 7) \<and>
   read_points_from_hdf5 ex_fs ''db.hdf5'' (NaN 7) float_nan 0 0 float_nan float_nan =
     (ex_fs, Inr (Dataset ''pointsY'', Dataset ''pointsZ''))"
proof -
  have "read_points_from_hdf5 ex_fs ''db.hdf5'' float_nan float_nan 0 0 float_nan float_nan =
     (ex_fs, Inr (Dataset ''pointsY'', Dataset ''pointsZ''))"
    by (simp add: points_run)
  with nan_is_unset [of "NaN 7" ex_fs "''db.hdf5''" float_nan 0 0 float_nan float_nan]
  show ?thesis by simp
qed

section \<open>Interpolation and truncation in the velocity reader\<close>

lemma norm_index_nonneg: "0 \<le> i \<Longrightarrow> i < int n \<Longrightarrow> norm_index n i = Some (nat i)"
  by (simp add: norm_index_def)

lemma get_row_nonneg: "0 \<le> i \<Longrightarrow> i < int (nrows a) \<Longrightarrow> get_row a i = Inr (rows a ! nat i)"
  by (simp add: get_row_def norm_index_nonneg)

lemma set_row_nonneg:
  "0 \<le> i \<Longrightarrow> i < int (nrows a) \<Longrightarrow> set_row a i r = Inr (a\<lparr>rows := (rows a)[nat i := r]\<rparr>)"
  by (simp add: set_row_def norm_index_nonneg)

lemma interp_rows_nonneg:
  "0 \<le> i \<Longrightarrow> i < int (nrows a) \<Longrightarrow> 0 \<le> j \<Longrightarrow> j < int (nrows a) \<Longrightarrow>
   0 \<le> k \<Longrightarrow> k < int (nrows a) \<Longrightarrow>
   interp_rows a i j k =
     Inr (a\<lparr>rows := (rows a)[nat i := map2 half_sum (rows a ! nat j) (rows a ! nat k)]\<rparr>)"
  by (simp add: interp_rows_def get_row_nonneg set_row_nonneg)

lemma last_drop_take:
  "e < t \<Longrightarrow> t \<le> length xs \<Longrightarrow> last (drop e (take t xs)) = xs ! (t - 1)"
  by (simp add: last_conv_nth min_def)

lemma hd_drop_take:
  "e < t \<Longrightarrow> t \<le> length xs \<Longrightarrow> hd (drop e (take t xs)) = xs ! e"
  by (simp add: hd_drop_conv_nth)

lemma cap_array_rows:
  assumes "0 \<le> eB" "0 \<le> eT" "eT + eB < int (nrows a)"
  shows "rows (cap_array eB eT (int (nrows a) - eT) a) =
           drop (nat eB) (take (nat (int (nrows a) - eT)) (rows a))"
  using assms
  by (auto simp: cap_array_def rows_upto_def rows_from_def slice_bound_def nrows_def Let_def min_def)


lemma interp_cap_array:
  assumes eB: "0 \<le> eB" and eT: "0 \<le> eT" and lt: "eT + eB < int (nrows a)"
    and t: "t = int (nrows a) - eT"
  shows "\<exists>b c.
    (if iT \<and> eT \<noteq> 0 then interp_rows a (t - 1) (t - 1) t else Inr a) = Inr b \<and>
    (if iB \<and> eB \<noteq> 0 then interp_rows b eB (eB - 1) eB else Inr b) = Inr c \<and>
    int (nrows (cap_array eB eT t c)) = int (nrows a) - eT - eB \<and>
    (iT \<and> 0 < eT \<and> \<not> (iB \<and> 0 < eB \<and> eB = t - 1) \<longrightarrow>
       last (rows (cap_array eB eT t c)) = map2 half_sum (rows a ! nat (t - 1)) (rows a ! nat t)) \<and>
    (iB \<and> 0 < eB \<and> \<not> (iT \<and> 0 < eT \<and> eB = t - 1) \<longrightarrow>
       hd (rows (cap_array eB eT t c)) = map2 half_sum (rows a ! nat (eB - 1)) (rows a ! nat eB))"
proof -
  define b where "b = (if iT \<and> eT \<noteq> 0
      then a\<lparr>rows := (rows a)[nat (t - 1) := map2 half_sum (rows a ! nat (t - 1)) (rows a ! nat t)]\<rparr>
      else a)"
  define c where "c = (if iB \<and> eB \<noteq> 0
      then b\<lparr>rows := (rows b)[nat eB := map2 half_sum (rows b ! nat (eB - 1)) (rows b ! nat eB)]\<rparr>
      else b)"
  have nb: "nrows b = nrows a" by (simp add: b_def nrows_def)
  have nc: "nrows c = nrows a" using nb by (simp add: c_def nrows_def)
  have top: "(if iT \<and> eT \<noteq> 0 then interp_rows a (t - 1) (t - 1) t else Inr a) = Inr b"
    using eB eT lt t by (simp add: b_def interp_rows_nonneg)
  have bot: "(if iB \<and> eB \<noteq> 0 then interp_rows b eB (eB - 1) eB else Inr b) = Inr c"
    using eB eT lt nb by (simp add: c_def interp_rows_nonneg)
  have cap: "rows (cap_array eB eT t c) = drop (nat eB) (take (nat t) (rows c))"
    using cap_array_rows [of eB eT c] eB eT lt t nc by simp
  have len: "nat eB < nat t" "nat t \<le> length (rows c)"
    using eB eT lt t nc by (simp_all add: nrows_def)
  have n: "int (nrows (cap_array eB eT t c)) = int (nrows a) - eT - eB"
    using cap len eB eT lt t by (auto simp: nrows_def)
  have l: "last (rows (cap_array eB eT t c)) = rows c ! (nat t - 1)"
    using last_drop_take [OF len] by (simp only: cap)
  have h: "hd (rows (cap_array eB eT t c)) = rows c ! nat eB"
    using hd_drop_take [OF len] by (simp only: cap)
  have tl: "nat t - 1 = nat (t - 1)" by simp
  have la: "nat (t - 1) < length (rows a)" "nat eB < length (rows a)"
    using eB eT lt t by (simp_all add: nrows_def)
  have L: "iT \<and> 0 < eT \<and> \<not> (iB \<and> 0 < eB \<and> eB = t - 1) \<longrightarrow>
       rows c ! nat (t - 1) = map2 half_sum (rows a ! nat (t - 1)) (rows a ! nat t)"
    using la eB eT lt t by (auto simp: c_def b_def nth_list_update)
  have H: "iB \<and> 0 < eB \<and> \<not> (iT \<and> 0 < eT \<and> eB = t - 1) \<longrightarrow>
       rows c ! nat eB = map2 half_sum (rows a ! nat (eB - 1)) (rows a ! nat eB)"
    using la eB eT lt t by (auto simp: c_def b_def nth_list_update)
  show ?thesis
    using top bot n l h tl L H by (intro exI [of _ b] exI [of _ c]) simp
qed


lemma cond_each3:
  "(if c then g x else Inr x) = Inr x' \<Longrightarrow> (if c then g y else Inr y) = Inr y' \<Longrightarrow>
   (if c then g z else Inr z) = Inr z' \<Longrightarrow>
   (if c then each3 g (x, y, z) else Inr (x, y, z)) = Inr (x', y', z')"
  by (simp add: each3_def split: if_splits)

lemma read_velocity_rows:
  assumes opened: "fs readPath = Some dbFile"
    and load: "load_velocity dbFile timeIndex = Inr u0"
    and pad: "add_velocity addValBot addValTop u0 = Inr (aX, aY, aZ)"
    and same: "nrows aY = nrows aX" "nrows aZ = nrows aX"
    and eB: "0 \<le> excludeBot" and eT: "0 \<le> excludeTop"
    and lt: "excludeTop + excludeBot < int (nrows aX)"
    and t: "t = int (nrows aX) - excludeTop"
  shows "\<exists>rX rY rZ.
    read readPath addValBot addValTop excludeBot excludeTop interpValBot interpValTop fs timeIndex
      = (fs, Inr (rX, rY, rZ)) \<and>
    (\<forall>(a, r) \<in> {(aX, rX), (aY, rY), (aZ, rZ)}.
       int (nrows r) = int (nrows aX) - excludeTop - excludeBot \<and>
       (interpValTop \<and> 0 < excludeTop \<and> \<not> (interpValBot \<and> 0 < excludeBot \<and> excludeBot = t - 1) \<longrightarrow>
          last (rows r) = map2 half_sum (rows a ! nat (t - 1)) (rows a ! nat t)) \<and>
       (interpValBot \<and> 0 < excludeBot \<and> \<not> (interpValTop \<and> 0 < excludeTop \<and> excludeBot = t - 1) \<longrightarrow>
          hd (rows r) = map2 half_sum (rows a ! nat (excludeBot - 1)) (rows a ! nat excludeBot)))"
proof -
  let ?gT = "\<lambda>a. interp_rows a (t - 1) (t - 1) t"
  let ?gB = "\<lambda>a. interp_rows a excludeBot (excludeBot - 1) excludeBot"
  let ?cT = "interpValTop \<and> excludeTop \<noteq> 0"
  let ?cB = "interpValBot \<and> excludeBot \<noteq> 0"
  from interp_cap_array [OF eB eT lt t, of interpValTop interpValBot]
  obtain bX cX where X: "(if ?cT then ?gT aX else Inr aX) = Inr bX"
      "(if ?cB then ?gB bX else Inr bX) = Inr cX"
      "int (nrows (cap_array excludeBot excludeTop t cX)) = int (nrows aX) - excludeTop - excludeBot"
      "interpValTop \<and> 0 < excludeTop \<and> \<not> (interpValBot \<and> 0 < excludeBot \<and> excludeBot = t - 1) \<longrightarrow>
         last (rows (cap_array excludeBot excludeTop t cX)) = map2 half_sum (rows aX ! nat (t - 1)) (rows aX ! nat t)"
      "interpValBot \<and> 0 < excludeBot \<and> \<not> (interpValTop \<and> 0 < excludeTop \<and> excludeBot = t - 1) \<longrightarrow>
         hd (rows (cap_array excludeBot excludeTop t cX)) = map2 half_sum (rows aX ! nat (excludeBot - 1)) (rows aX ! nat excludeBot)"
    by blast
  have ltY: "excludeTop + excludeBot < int (nrows aY)" and tY: "t = int (nrows aY) - excludeTop"
    using lt t same by simp_all
  from interp_cap_array [OF eB eT ltY tY, of interpValTop interpValBot]
  obtain bY cY where Y: "(if ?cT then ?gT aY else Inr aY) = Inr bY"
      "(if ?cB then ?gB bY else Inr bY) = Inr cY"
      "int (nrows (cap_array excludeBot excludeTop t cY)) = int (nrows aY) - excludeTop - excludeBot"
      "interpValTop \<and> 0 < excludeTop \<and> \<not> (interpValBot \<and> 0 < excludeBot \<and> excludeBot = t - 1) \<longrightarrow>
         last (rows (cap_array excludeBot excludeTop t cY)) = map2 half_sum (rows aY ! nat (t - 1)) (rows aY ! nat t)"
      "interpValBot \<and> 0 < excludeBot \<and> \<not> (interpValTop \<and> 0 < excludeTop \<and> excludeBot = t - 1) \<longrightarrow>
         hd (rows (cap_array excludeBot excludeTop t cY)) = map2 half_sum (rows aY ! nat (excludeBot - 1)) (rows aY ! nat excludeBot)"
    by blast
  have ltZ: "excludeTop + excludeBot < int (nrows aZ)" and tZ: "t = int (nrows aZ) - excludeTop"
    using lt t same by simp_all
  from interp_cap_array [OF eB eT ltZ tZ, of interpValTop interpValBot]
  obtain bZ cZ where Z: "(if ?cT then ?gT aZ else Inr aZ) = Inr bZ"
      "(if ?cB then ?gB bZ else Inr bZ) = Inr cZ"
      "int (nrows (cap_array excludeBot excludeTop t cZ)) = int (nrows aZ) - excludeTop - excludeBot"
      "interpValTop \<and> 0 < excludeTop \<and> \<not> (interpValBot \<and> 0 < excludeBot \<and> excludeBot = t - 1) \<longrightarrow>
         last (rows (cap_array excludeBot excludeTop t cZ)) = map2 half_sum (rows aZ ! nat (t - 1)) (rows aZ ! nat t)"
      "interpValBot \<and> 0 < excludeBot \<and> \<not> (interpValTop \<and> 0 < excludeTop \<and> excludeBot = t - 1) \<longrightarrow>
         hd (rows (cap_array excludeBot excludeTop t cZ)) = map2 half_sum (rows aZ ! nat (excludeBot - 1)) (rows aZ ! nat excludeBot)"
    by blast
  have top: "(if ?cT then each3 ?gT (aX, aY, aZ) else Inr (aX, aY, aZ)) = Inr (bX, bY, bZ)"
    by (rule cond_each3 [OF X(1) Y(1) Z(1)])
  have bot: "(if ?cB then each3 ?gB (bX, bY, bZ) else Inr (bX, bY, bZ)) = Inr (cX, cY, cZ)"
    by (rule cond_each3 [OF X(2) Y(2) Z(2)])
  have interp: "interp_velocity interpValBot interpValTop excludeBot excludeTop t (aX, aY, aZ)
      = Inr (cX, cY, cZ)"
    unfolding interp_velocity_def top using bot by simp
  have run: "read readPath addValBot addValTop excludeBot excludeTop interpValBot interpValTop
      fs timeIndex =
    (fs, Inr (cap_array excludeBot excludeTop t cX, cap_array excludeBot excludeTop t cY,
              cap_array excludeBot excludeTop t cZ))"
    using opened load pad interp t
    by (simp add: read_def h5_File_def cap_velocity_def Let_def)
  show ?thesis
    using run X(3-5) Y(3-5) Z(3-5) same by auto
qed

text \<open>
  C1, as amended. Let \<open>aX\<close>, \<open>aY\<close>, \<open>aZ\<close> be the padded arrays, of \<open>n\<close> rows each, with
  \<open>0 \<le> excludeBot\<close>, \<open>0 \<le> excludeTop\<close> and \<open>excludeTop + excludeBot < n\<close>, and let
  \<open>t = n - excludeTop\<close>. Then \<open>read\<close> returns, and
  \<^item> with \<open>interpValTop\<close> and \<open>excludeTop > 0\<close>, the last row of every returned component
    is \<open>0.5*(a[t-1] + a[t])\<close> of the padded array \<open>a\<close>,
  \<^item> with \<open>interpValBot\<close> and \<open>excludeBot > 0\<close>, the first row of every returned component
    is \<open>0.5*(a[excludeBot-1] + a[excludeBot])\<close> of the padded array \<open>a\<close>,

  in both cases unless both interpolations are active and \<open>excludeBot = t - 1\<close>, where
  the two interpolations write the same row (the only row that is returned).
\<close>

theorem interpolation_before_truncation:
  assumes opened: "fs readPath = Some dbFile"
    and load: "load_velocity dbFile timeIndex = Inr u0"
    and pad: "add_velocity addValBot addValTop u0 = Inr (aX, aY, aZ)"
    and same: "nrows aY = nrows aX" "nrows aZ = nrows aX"
    and eB: "0 \<le> excludeBot" and eT: "0 \<le> excludeTop"
    and lt: "excludeTop + excludeBot < int (nrows aX)"
    and t: "t = int (nrows aX) - excludeTop"
  shows "\<exists>rX rY rZ.
    read readPath addValBot addValTop excludeBot excludeTop interpValBot interpValTop fs timeIndex
      = (fs, Inr (rX, rY, rZ)) \<and>
    (interpValTop \<and> 0 < excludeTop \<and>
       \<not> (interpValBot \<and> 0 < excludeBot \<and> excludeBot = t - 1) \<longrightarrow>
         last (rows rX) = map2 half_sum (rows aX ! nat (t - 1)) (rows aX ! nat t) \<and>
         last (rows rY) = map2 half_sum (rows aY ! nat (t - 1)) (rows aY ! nat t) \<and>
         last (rows rZ) = map2 half_sum (rows aZ ! nat (t - 1)) (rows aZ ! nat t)) \<and>
    (interpValBot \<and> 0 < excludeBot \<and>
       \<not> (interpValTop \<and> 0 < excludeTop \<and> excludeBot = t - 1) \<longrightarrow>
         hd (rows rX) = map2 half_sum (rows aX ! nat (excludeBot - 1)) (rows aX ! nat excludeBot) \<and>
         hd (rows rY) = map2 half_sum (rows aY ! nat (excludeBot - 1)) (rows aY ! nat excludeBot) \<and>
         hd (rows rZ) = map2 half_sum (rows aZ ! nat (excludeBot - 1)) (rows aZ ! nat excludeBot))"
proof -
  from read_velocity_rows [where fs = fs and readPath = readPath, OF assms,
      of interpValBot interpValTop]
  obtain rX rY rZ where
    "read readPath addValBot addValTop excludeBot excludeTop interpValBot interpValTop fs timeIndex
       = (fs, Inr (rX, rY, rZ))"
    and "\<forall>(a, r) \<in> {(aX, rX), (aY, rY), (aZ, rZ)}.
       int (nrows r) = int (nrows aX) - excludeTop - excludeBot \<and>
       (interpValTop \<and> 0 < excludeTop \<and>
          \<not> (interpValBot \<and> 0 < excludeBot \<and> excludeBot = t - 1) \<longrightarrow>
          last (rows r) = map2 half_sum (rows a ! nat (t - 1)) (rows a ! nat t)) \<and>
       (interpValBot \<and> 0 < excludeBot \<and>
          \<not> (interpValTop \<and> 0 < excludeTop \<and> excludeBot = t - 1) \<longrightarrow>
          hd (rows r) = map2 half_sum (rows a ! nat (excludeBot - 1)) (rows a ! nat excludeBot))"
    by blast
  then show ?thesis
    by (intro exI [of _ rX] exI [of _ rY] exI [of _ rZ]) simp
qed

theorem interpolation_before_truncation_witness:
  "ex_fs ''db.hdf5'' = Some ex_file \<and>
   load_velocity ex_file 0 = Inr (ex_u, ex_u, ex_u) \<and>
   add_velocity float_nan (Fin 0) (ex_u, ex_u, ex_u) =
     Inr (\<lparr>ncols = 2, rows = [[Fin 8, Fin 8], [Fin 2, Fin 2], [Fin 4, Fin 4], [Fin 0, Fin 0]]\<rparr>,
          \<lparr>ncols = 2, rows = [[Fin 8, Fin 8], [Fin 2, Fin 2], [Fin 4, Fin 4], [Fin 0, Fin 0]]\<rparr>,
          \<lparr>ncols = 2, rows = [[Fin 8, Fin 8], [Fin 2, Fin 2], [Fin 4, Fin 4], [Fin 0, Fin 0]]\<rparr>) \<and>
   (\<exists>rX rY rZ.
      read ''db.hdf5'' float_nan (Fin 0) 1 1 True True ex_fs 0 = (ex_fs, Inr (rX, rY, rZ)) \<and>
      last (rows rX) = [Fin 2, Fin 2] \<and> last (rows rY) = [Fin 2, Fin 2] \<and>
      last (rows rZ) = [Fin 2, Fin 2] \<and>
      hd (rows rX) = [Fin 5, Fin 5] \<and> hd (rows rY) = [Fin 5, Fin 5] \<and>
      hd (rows rZ) = [Fin 5, Fin 5])"
proof -
  let ?a = "\<lparr>ncols = 2, rows = [[Fin 8, Fin 8], [Fin 2, Fin 2], [Fin 4, Fin 4], [Fin 0, Fin 0]]\<rparr>"
  have h1: "ex_fs ''db.hdf5'' = Some ex_file"
    by (simp add: ex_fs_def)
  have h2: "load_velocity ex_file 0 = Inr (ex_u, ex_u, ex_u)"
    by (simp add: velocity_run)
  have h3: "add_velocity float_nan (Fin 0) (ex_u, ex_u, ex_u) = Inr (?a, ?a, ?a)"
    by (simp add: velocity_run eval_nat_numeral)
  have h4: "(0::int) \<le> 1" "(1::int) + 1 < int (nrows ?a)" "(3::int) = int (nrows ?a) - 1"
    by (simp_all add: nrows_def)
  from interpolation_before_truncation [where fs = ex_fs and readPath = "''db.hdf5''",
      OF h1 h2 h3 refl refl h4(1) h4(1) h4(2) h4(3), of True True]
  show ?thesis
    using h1 h2 h3 by (simp add: half_sum_def)
qed

text \<open>
  The claim as stated fails where the exception of the amended claim applies: three
  rows, one excluded on each side, both interpolations. The top interpolation writes
  \<open>0.5*(2 + 4) = 3\<close> into row 1, the bottom interpolation then overwrites row 1 with
  \<open>0.5*(8 + 3) = 5.5\<close>, and row 1 is the only row returned: it is neither
  \<open>0.5*(a[1] + a[2]) = 3\<close> nor \<open>0.5*(a[0] + a[1]) = 5\<close>. It also fails outside the
  bounds of the amended claim: with all three rows excluded at the top the call
  returns arrays without rows, which have no last row.
\<close>

theorem interpolation_overlap_counterexample:
  "add_velocity float_nan float_nan (ex_u, ex_u, ex_u) = Inr (ex_u, ex_u, ex_u) \<and>
   read ''db.hdf5'' float_nan float_nan 1 1 True True ex_fs 0 =
     (ex_fs, Inr (\<lparr>ncols = 2, rows = [[Fin (11/2), Fin (11/2)]]\<rparr>,
                  \<lparr>ncols = 2, rows = [[Fin (11/2), Fin (11/2)]]\<rparr>,
                  \<lparr>ncols = 2, rows = [[Fin (11/2), Fin (11/2)]]\<rparr>)) \<and>
   last (rows \<lparr>ncols = 2, rows = [[Fin (11/2), Fin (11/2)]]\<rparr>)
     \<noteq> map2 half_sum (rows ex_u ! 1) (rows ex_u ! 2) \<and>
   hd (rows \<lparr>ncols = 2, rows = [[Fin (11/2), Fin (11/2)]]\<rparr>)
     \<noteq> map2 half_sum (rows ex_u ! 0) (rows ex_u ! 1) \<and>
   read ''db.hdf5'' float_nan float_nan 0 3 False True ex_fs 0 =
     (ex_fs, Inr (\<lparr>ncols = 2, rows = []\<rparr>, \<lparr>ncols = 2, rows = []\<rparr>,
                  \<lparr>ncols = 2, rows = []\<rparr>))"
  by (simp add: velocity_run)

section \<open>The points reader, step by step\<close>

lemma fmul_one: "fmul v (Fin 1) = v"
  by (cases v) simp_all

lemma array2_eta: "\<lparr>ncols = ncols a, rows = rows a\<rparr> = (a::array2)"
  by simp

lemma load_points_ok:
  "points_lookup f ''pointsY'' = Inr y \<Longrightarrow> points_lookup f ''pointsZ'' = Inr z \<Longrightarrow>
   load_points f = Inr (Dataset ''pointsY'', Dataset ''pointsZ'')"
  by (simp add: load_points_def points_dataset_def)

lemma add_bot_eq:
  assumes "arr_read f pY = Inr y" "arr_read f pZ = Inr z" "\<not> isnan v"
  shows "add_bot f v (ncols y) (pY, pZ) =
    (if rows z = [] then Inl IndexError
     else Inr (Ndarray \<lparr>ncols = ncols y, rows = replicate (ncols y) v # rows y\<rparr>,
               Ndarray \<lparr>ncols = ncols z, rows = (rows z ! 0) # rows z\<rparr>))"
  using assms
  by (simp add: add_bot_def np_append_def const_row_def fmul_one row_array_def get_row_def
      norm_index_def nrows_def)

lemma add_top_eq:
  assumes "arr_read f pY = Inr y" "arr_read f pZ = Inr z" "\<not> isnan v" "n = ncols y"
  shows "add_top f v n (pY, pZ) =
    (if rows z = [] then Inl IndexError
     else Inr (Ndarray \<lparr>ncols = ncols y, rows = rows y @ [replicate (ncols y) v]\<rparr>,
               Ndarray \<lparr>ncols = ncols z, rows = rows z @ [rows z ! 0]\<rparr>))"
  using assms
  by (simp add: add_top_def np_append_def const_row_def fmul_one row_array_def get_row_def
      norm_index_def nrows_def)

lemma add_points_eq:
  assumes "arr_read f pY = Inr y" "arr_read f pZ = Inr z"
  shows "add_points f aB aT (pY, pZ) =
    (if isnan aB \<and> isnan aT then Inr (pY, pZ)
     else if rows z = [] then Inl IndexError
     else Inr (Ndarray \<lparr>ncols = ncols y,
                 rows = (if isnan aB then [] else [replicate (ncols y) aB]) @ rows y @
                        (if isnan aT then [] else [replicate (ncols y) aT])\<rparr>,
               Ndarray \<lparr>ncols = ncols z,
                 rows = (if isnan aB then [] else [rows z ! 0]) @ rows z @
                        (if isnan aT then [] else [rows z ! 0])\<rparr>))"
proof (cases "isnan aB")
  case True
  then show ?thesis
    using assms add_top_eq [OF assms, of aT "ncols y"]
    by (simp add: add_points_def add_bot_nan add_top_nan)
next
  case False
  note bot = add_bot_eq [OF assms False]
  show ?thesis
  proof (cases "rows z = []")
    case True
    then show ?thesis using assms False bot by (simp add: add_points_def)
  next
    case nonempty: False
    let ?y1 = "\<lparr>ncols = ncols y, rows = replicate (ncols y) aB # rows y\<rparr>"
    let ?z1 = "\<lparr>ncols = ncols z, rows = (rows z ! 0) # rows z\<rparr>"
    have r: "arr_read f (Ndarray ?y1) = Inr ?y1" "arr_read f (Ndarray ?z1) = Inr ?z1"
      by simp_all
    show ?thesis
    proof (cases "isnan aT")
      case True
      then show ?thesis using assms False bot nonempty
        by (simp add: add_points_def add_top_nan)
    next
      case nT: False
      from add_top_eq [OF r nT, of "ncols y"] show ?thesis
        using assms False bot nonempty nT by (simp add: add_points_def)
    qed
  qed
qed


lemma cap_points_eq:
  assumes "arr_read f pY = Inr y" "arr_read f pZ = Inr z"
  shows "cap_points f eB eT (pY, pZ) =
    (if eB = 0 \<and> eT = 0 then Inr (pY, pZ)
     else Inr (Ndarray (cap_array eB eT (int (nrows y) - eT) y),
               Ndarray (cap_array eB eT (int (nrows y) - eT) z)))"
  using assms
  by (simp add: cap_points_def cap_top_def cap_bot_def arr_upto_def arr_from_def cap_array_def)

lemma cap_array_none: "cap_array 0 0 t a = a"
  by (simp add: cap_array_def)

text \<open>The two exchanges on an array in memory.\<close>

lemma exchange_points_ndarray:
  "exchange_points f xB xT (Ndarray y, pZ) =
     (f, case (if isnan xB then Inr y else fill_row y 0 xB) of
           Inl e \<Rightarrow> Inl e
         | Inr y1 \<Rightarrow>
             (case (if isnan xT then Inr y1 else fill_row y1 (- 1) xT) of
                Inl e \<Rightarrow> Inl e
              | Inr y2 \<Rightarrow> Inr (Ndarray y2, pZ)))"
  by (simp add: exchange_points_def split: sum.splits)

lemma points_lookup_store_same:
  "points_lookup f name = Inr a \<Longrightarrow> points_lookup (points_store f name a') name = Inr a'"
  by (auto simp: points_lookup_def points_store_def split: option.splits)

lemma points_lookup_store_other:
  "name' \<noteq> name \<Longrightarrow> points_lookup (points_store f name a') name' = points_lookup f name'"
  by (auto simp: points_lookup_def points_store_def split: option.splits)

text \<open>The two exchanges on a handle: every one that succeeds writes to the file.\<close>

lemma exchange_points_dataset:
  assumes "points_lookup f name = Inr y"
  shows "exchange_points f xB xT (Dataset name, pZ) =
     (case (if isnan xB then Inr y else fill_row y 0 xB) of
        Inl e \<Rightarrow> (f, Inl e)
      | Inr y1 \<Rightarrow>
          (case (if isnan xT then Inr y1 else fill_row y1 (- 1) xT) of
             Inl e \<Rightarrow> ((if isnan xB then f else points_store f name y1), Inl e)
           | Inr y2 \<Rightarrow>
               ((if isnan xB \<and> isnan xT then f else points_store f name y2),
                Inr (Dataset name, pZ))))"
proof -
  have twice: "points_store (points_store f name a) name b = points_store f name b" for a b
    by (simp add: points_store_def split: option.splits)
  show ?thesis
    using assms
    by (auto simp: exchange_points_def points_lookup_store_same twice split: sum.splits)
qed


lemma read_points_content:
  assumes opened: "fs readPath = Some f"
    and Y: "points_lookup f ''pointsY'' = Inr y"
    and Z: "points_lookup f ''pointsZ'' = Inr z"
    and nonempty: "isnan aB \<and> isnan aT \<or> rows z \<noteq> []"
    and y1: "y1 = \<lparr>ncols = ncols y,
                 rows = (if isnan aB then [] else [replicate (ncols y) aB]) @ rows y @
                        (if isnan aT then [] else [replicate (ncols y) aT])\<rparr>"
    and z1: "z1 = \<lparr>ncols = ncols z,
                 rows = (if isnan aB then [] else [rows z ! 0]) @ rows z @
                        (if isnan aT then [] else [rows z ! 0])\<rparr>"
    and y2: "y2 = cap_array eB eT (int (nrows y1) - eT) y1"
    and z2: "z2 = cap_array eB eT (int (nrows y1) - eT) z1"
    and ex: "ex = (case (if isnan xB then Inr y2 else fill_row y2 0 xB) of
                     Inl e \<Rightarrow> Inl e
                   | Inr y' \<Rightarrow> (if isnan xT then Inr y' else fill_row y' (- 1) xT))"
  shows "(\<forall>e. ex = Inl e \<longrightarrow> snd (read_points_from_hdf5 fs readPath aB aT eB eT xB xT) = Inl e) \<and>
         (\<forall>y3. ex = Inr y3 \<longrightarrow>
            (\<exists>fs' pY pZ. read_points_from_hdf5 fs readPath aB aT eB eT xB xT = (fs', Inr (pY, pZ)) \<and>
               points_value fs' readPath pY = Inr y3 \<and> points_value fs' readPath pZ = Inr z2))"
proof (cases "isnan aB \<and> isnan aT \<and> eB = 0 \<and> eT = 0")
  case True
  have same: "y1 = y" "z1 = z" "y2 = y" "z2 = z"
    using True y1 z1 y2 z2 by (simp_all add: cap_array_none)
  have run: "read_points_from_hdf5 fs readPath aB aT eB eT xB xT =
      (case exchange_points f xB xT (Dataset ''pointsY'', Dataset ''pointsZ'') of
         (f', r) \<Rightarrow> (fs(readPath \<mapsto> f'), r))"
    using opened True load_points_ok [OF Y Z] add_points_eq [of f "Dataset ''pointsY''" y "Dataset ''pointsZ''" z aB aT]
      cap_points_eq [of f "Dataset ''pointsY''" y "Dataset ''pointsZ''" z eB eT] Y Z
    by (simp add: read_points_from_hdf5_def h5_File_def)
  show ?thesis
    unfolding run exchange_points_dataset [OF Y] using ex same Y Z
    by (auto simp: points_value_def points_lookup_store_same [OF Y] points_lookup_store_other
        split: sum.splits if_splits)
next
  case False
  have pad: "add_points f aB aT (Dataset ''pointsY'', Dataset ''pointsZ'') =
      (if isnan aB \<and> isnan aT then Inr (Dataset ''pointsY'', Dataset ''pointsZ'')
       else Inr (Ndarray y1, Ndarray z1))"
    using add_points_eq [of f "Dataset ''pointsY''" y "Dataset ''pointsZ''" z aB aT] Y Z nonempty y1 z1
    by auto
  have same: "isnan aB \<and> isnan aT \<Longrightarrow> y1 = y \<and> z1 = z"
    using y1 z1 by simp
  have cap: "(case add_points f aB aT (Dataset ''pointsY'', Dataset ''pointsZ'') of
               Inl e \<Rightarrow> Inl e | Inr p1 \<Rightarrow> cap_points f eB eT p1) = Inr (Ndarray y2, Ndarray z2)"
  proof (cases "isnan aB \<and> isnan aT")
    case True
    with False have "\<not> (eB = 0 \<and> eT = 0)" by simp
    then show ?thesis
      using True pad same y2 z2 Y Z
        cap_points_eq [of f "Dataset ''pointsY''" y "Dataset ''pointsZ''" z eB eT]
      by auto
  next
    case False
    then show ?thesis
      using pad y2 z2 cap_points_eq [of f "Ndarray y1" y1 "Ndarray z1" z1 eB eT]
      by (auto simp: cap_array_none)
  qed
  have run: "read_points_from_hdf5 fs readPath aB aT eB eT xB xT =
      (case exchange_points f xB xT (Ndarray y2, Ndarray z2) of
         (f', r) \<Rightarrow> (fs(readPath \<mapsto> f'), r))"
    using opened load_points_ok [OF Y Z] cap
    by (auto simp: read_points_from_hdf5_def h5_File_def split: sum.splits)
  show ?thesis
    unfolding run exchange_points_ndarray using ex opened
    by (auto simp: points_value_def split: sum.splits if_splits)
qed


lemma load_points_Inr:
  assumes "load_points f = Inr p0"
  obtains y z where "points_lookup f ''pointsY'' = Inr y" "points_lookup f ''pointsZ'' = Inr z"
    "p0 = (Dataset ''pointsY'', Dataset ''pointsZ'')"
  using assms
  by (auto simp: load_points_def points_dataset_def split: sum.splits)

lemma read_points_staged:
  assumes opened: "fs readPath = Some f"
    and load: "load_points f = Inr p0"
    and pad: "add_points f aB aT p0 = Inr p1"
    and cap: "cap_points f eB eT p1 = Inr (pY2, pZ2)"
    and y2: "arr_read f pY2 = Inr y2" and z2: "arr_read f pZ2 = Inr z2"
    and ex: "ex = (case (if isnan xB then Inr y2 else fill_row y2 0 xB) of
                     Inl e \<Rightarrow> Inl e
                   | Inr y' \<Rightarrow> (if isnan xT then Inr y' else fill_row y' (- 1) xT))"
  shows "(\<forall>e. ex = Inl e \<longrightarrow> snd (read_points_from_hdf5 fs readPath aB aT eB eT xB xT) = Inl e) \<and>
         (\<forall>y3. ex = Inr y3 \<longrightarrow>
            (\<exists>fs' pY pZ. read_points_from_hdf5 fs readPath aB aT eB eT xB xT = (fs', Inr (pY, pZ)) \<and>
               points_value fs' readPath pY = Inr y3 \<and> points_value fs' readPath pZ = Inr z2))"
proof -
  from load obtain y z where Y: "points_lookup f ''pointsY'' = Inr y"
    and Z: "points_lookup f ''pointsZ'' = Inr z"
    and p0: "p0 = (Dataset ''pointsY'', Dataset ''pointsZ'')"
    by (rule load_points_Inr)
  define y1 where "y1 = \<lparr>ncols = ncols y,
                 rows = (if isnan aB then [] else [replicate (ncols y) aB]) @ rows y @
                        (if isnan aT then [] else [replicate (ncols y) aT])\<rparr>"
  define z1 where "z1 = \<lparr>ncols = ncols z,
                 rows = (if isnan aB then [] else [rows z ! 0]) @ rows z @
                        (if isnan aT then [] else [rows z ! 0])\<rparr>"
  have padded: "add_points f aB aT p0 =
    (if isnan aB \<and> isnan aT then Inr p0
     else if rows z = [] then Inl IndexError
     else Inr (Ndarray y1, Ndarray z1))"
    using add_points_eq [of f "Dataset ''pointsY''" y "Dataset ''pointsZ''" z aB aT] Y Z p0
    by (simp add: y1_def z1_def)
  have nonempty: "isnan aB \<and> isnan aT \<or> rows z \<noteq> []"
    using pad padded by (auto split: if_splits)
  have same: "isnan aB \<and> isnan aT \<Longrightarrow> y1 = y \<and> z1 = z"
    by (simp add: y1_def z1_def)
  have r1: "arr_read f (fst p1) = Inr y1" "arr_read f (snd p1) = Inr z1"
    using pad padded nonempty same Y Z p0 by (auto split: if_splits)
  have "cap_points f eB eT p1 =
    (if eB = 0 \<and> eT = 0 then Inr p1
     else Inr (Ndarray (cap_array eB eT (int (nrows y1) - eT) y1),
               Ndarray (cap_array eB eT (int (nrows y1) - eT) z1)))"
    using cap_points_eq [OF r1, of eB eT] by simp
  with cap r1 y2 z2 have c: "y2 = cap_array eB eT (int (nrows y1) - eT) y1"
      "z2 = cap_array eB eT (int (nrows y1) - eT) z1"
    by (auto simp: cap_array_none split: if_splits)
  show ?thesis
    by (rule read_points_content [where fs = fs and readPath = readPath,
          OF opened Y Z nonempty y1_def z1_def c ex])
qed

section \<open>Row counts\<close>

lemma fill_row_first:
  "rows a \<noteq> [] \<Longrightarrow>
   fill_row a 0 v = Inr (a\<lparr>rows := (rows a)[0 := replicate (ncols a) v]\<rparr>)"
  by (simp add: fill_row_def set_row_def norm_index_def nrows_def)

lemma fill_row_last:
  "rows a \<noteq> [] \<Longrightarrow>
   fill_row a (- 1) v = Inr (a\<lparr>rows := (rows a)[length (rows a) - 1 := replicate (ncols a) v]\<rparr>)"
proof -
  assume "rows a \<noteq> []"
  then have len: "0 < length (rows a)" by simp
  then have "nat (- 1 + int (length (rows a))) = length (rows a) - 1" by linarith
  with len show ?thesis
    by (simp add: fill_row_def set_row_def norm_index_def nrows_def Suc_le_eq)
qed

lemma exchange_ok:
  assumes "rows a \<noteq> []"
  shows "(case (if isnan xB then Inr a else fill_row a 0 xB) of
            Inl e \<Rightarrow> Inl e
          | Inr y' \<Rightarrow> (if isnan xT then Inr y' else fill_row y' (- 1) xT)) =
         Inr (a\<lparr>rows :=
               (let r1 = (if isnan xB then rows a else (rows a)[0 := replicate (ncols a) xB])
                in if isnan xT then r1 else r1[length (rows a) - 1 := replicate (ncols a) xT])\<rparr>)"
  using assms by (simp add: fill_row_first fill_row_last Let_def)


lemma cap_points_content:
  assumes "arr_read f pY1 = Inr y1" "arr_read f pZ1 = Inr z1"
  shows "\<exists>pY2 pZ2. cap_points f eB eT (pY1, pZ1) = Inr (pY2, pZ2) \<and>
           arr_read f pY2 = Inr (cap_array eB eT (int (nrows y1) - eT) y1) \<and>
           arr_read f pZ2 = Inr (cap_array eB eT (int (nrows y1) - eT) z1)"
  using assms by (auto simp: cap_points_eq [OF assms] cap_array_none)

lemma cap_array_nrows:
  assumes "0 \<le> eB" "0 \<le> eT" "eT + eB < int (nrows a)"
  shows "int (nrows (cap_array eB eT (int (nrows a) - eT) a)) = int (nrows a) - eT - eB"
  using assms cap_array_rows [OF assms] by (auto simp: nrows_def)

lemma points_row_count:
  assumes opened: "fs readPath = Some f"
    and load: "load_points f = Inr p0"
    and pad: "add_points f addValBot addValTop p0 = Inr (pY1, pZ1)"
    and y1: "arr_read f pY1 = Inr y1" and z1: "arr_read f pZ1 = Inr z1"
    and same: "nrows z1 = nrows y1"
    and eT: "0 \<le> excludeTop" and eB: "0 \<le> excludeBot"
    and lt: "excludeTop + excludeBot < int (nrows y1)"
  shows "\<exists>fs' pY pZ ry rz.
     read_points_from_hdf5 fs readPath addValBot addValTop excludeBot excludeTop
         exchangeValBot exchangeValTop = (fs', Inr (pY, pZ)) \<and>
     points_value fs' readPath pY = Inr ry \<and> points_value fs' readPath pZ = Inr rz \<and>
     int (nrows ry) = int (nrows y1) - excludeTop - excludeBot \<and>
     int (nrows rz) = int (nrows y1) - excludeTop - excludeBot"
proof -
  let ?t = "int (nrows y1) - excludeTop"
  let ?y2 = "cap_array excludeBot excludeTop ?t y1"
  let ?z2 = "cap_array excludeBot excludeTop ?t z1"
  from cap_points_content [OF y1 z1, of excludeBot excludeTop]
  obtain pY2 pZ2 where cap: "cap_points f excludeBot excludeTop (pY1, pZ1) = Inr (pY2, pZ2)"
    and y2: "arr_read f pY2 = Inr ?y2" and z2: "arr_read f pZ2 = Inr ?z2"
    by blast
  have ny: "int (nrows ?y2) = int (nrows y1) - excludeTop - excludeBot"
    by (rule cap_array_nrows [OF eB eT lt])
  have nz: "int (nrows ?z2) = int (nrows y1) - excludeTop - excludeBot"
    using cap_array_nrows [OF eB eT, of z1] lt same by simp
  have ne: "rows ?y2 \<noteq> []"
    using ny lt by (auto simp: nrows_def)
  note ex = exchange_ok [where xB = exchangeValBot and xT = exchangeValTop, OF ne]
  from read_points_staged [where fs = fs and readPath = readPath
      and xB = exchangeValBot and xT = exchangeValTop, OF opened load pad cap y2 z2 ex [symmetric]]
  obtain fs' pY pZ where
    "read_points_from_hdf5 fs readPath addValBot addValTop excludeBot excludeTop
         exchangeValBot exchangeValTop = (fs', Inr (pY, pZ))"
    "points_value fs' readPath pY = Inr (?y2\<lparr>rows :=
               (let r1 = (if isnan exchangeValBot then rows ?y2
                          else (rows ?y2)[0 := replicate (ncols ?y2) exchangeValBot])
                in if isnan exchangeValTop then r1
                   else r1[length (rows ?y2) - 1 := replicate (ncols ?y2) exchangeValTop])\<rparr>)"
    "points_value fs' readPath pZ = Inr ?z2"
    by blast
  then show ?thesis
    using ny nz by (auto simp: nrows_def Let_def)
qed


text \<open>
  C2. With \<open>excludeTop \<ge> 0\<close>, \<open>excludeBot \<ge> 0\<close> and \<open>excludeTop + excludeBot < n\<close>, where
  \<open>n\<close> is the row count after the padding step, both readers return, and every returned
  array has \<open>n - excludeTop - excludeBot\<close> rows. The stored arrays are taken to have the
  same number of rows, so the padded ones have too. For the points reader a returned
  variable is read in the file system the call leaves behind.
\<close>

theorem returned_row_count:
  "(fs readPath = Some f \<and> load_points f = Inr p0 \<and>
    add_points f addValBot addValTop p0 = Inr (pY1, pZ1) \<and>
    arr_read f pY1 = Inr y1 \<and> arr_read f pZ1 = Inr z1 \<and> nrows z1 = nrows y1 \<and>
    0 \<le> excludeTop \<and> 0 \<le> excludeBot \<and> excludeTop + excludeBot < int (nrows y1) \<longrightarrow>
      (\<exists>fs' pY pZ ry rz.
         read_points_from_hdf5 fs readPath addValBot addValTop excludeBot excludeTop
             exchangeValBot exchangeValTop = (fs', Inr (pY, pZ)) \<and>
         points_value fs' readPath pY = Inr ry \<and> points_value fs' readPath pZ = Inr rz \<and>
         int (nrows ry) = int (nrows y1) - excludeTop - excludeBot \<and>
         int (nrows rz) = int (nrows y1) - excludeTop - excludeBot)) \<and>
   (fs readPath = Some f \<and> load_velocity f timeIndex = Inr u0 \<and>
    add_velocity addValBot addValTop u0 = Inr (aX, aY, aZ) \<and>
    nrows aY = nrows aX \<and> nrows aZ = nrows aX \<and>
    0 \<le> excludeTop \<and> 0 \<le> excludeBot \<and> excludeTop + excludeBot < int (nrows aX) \<longrightarrow>
      (\<exists>rX rY rZ.
         call (read_velocity_from_hdf5 readPath addValBot addValTop excludeBot excludeTop
                 interpValBot interpValTop) fs timeIndex = (fs, Inr (rX, rY, rZ)) \<and>
         int (nrows rX) = int (nrows aX) - excludeTop - excludeBot \<and>
         int (nrows rY) = int (nrows aX) - excludeTop - excludeBot \<and>
         int (nrows rZ) = int (nrows aX) - excludeTop - excludeBot))"
proof (intro conjI impI; elim conjE)
  assume "fs readPath = Some f" "load_points f = Inr p0"
    "add_points f addValBot addValTop p0 = Inr (pY1, pZ1)"
    "arr_read f pY1 = Inr y1" "arr_read f pZ1 = Inr z1" "nrows z1 = nrows y1"
    "0 \<le> excludeTop" "0 \<le> excludeBot" "excludeTop + excludeBot < int (nrows y1)"
  then show "\<exists>fs' pY pZ ry rz.
         read_points_from_hdf5 fs readPath addValBot addValTop excludeBot excludeTop
             exchangeValBot exchangeValTop = (fs', Inr (pY, pZ)) \<and>
         points_value fs' readPath pY = Inr ry \<and> points_value fs' readPath pZ = Inr rz \<and>
         int (nrows ry) = int (nrows y1) - excludeTop - excludeBot \<and>
         int (nrows rz) = int (nrows y1) - excludeTop - excludeBot"
    by (rule points_row_count [where fs = fs and readPath = readPath])
next
  assume h: "fs readPath = Some f" "load_velocity f timeIndex = Inr u0"
    "add_velocity addValBot addValTop u0 = Inr (aX, aY, aZ)"
    "nrows aY = nrows aX" "nrows aZ = nrows aX"
    and e: "0 \<le> excludeTop" "0 \<le> excludeBot" "excludeTop + excludeBot < int (nrows aX)"
  from read_velocity_rows [where fs = fs and readPath = readPath
      and interpValBot = interpValBot and interpValTop = interpValTop,
      OF h e(2) e(1) e(3) refl]
  show "\<exists>rX rY rZ.
         call (read_velocity_from_hdf5 readPath addValBot addValTop excludeBot excludeTop
                 interpValBot interpValTop) fs timeIndex = (fs, Inr (rX, rY, rZ)) \<and>
         int (nrows rX) = int (nrows aX) - excludeTop - excludeBot \<and>
         int (nrows rY) = int (nrows aX) - excludeTop - excludeBot \<and>
         int (nrows rZ) = int (nrows aX) - excludeTop - excludeBot"
    by (auto simp: read_velocity_from_hdf5_def)
qed

theorem returned_row_count_witness:
  "(\<exists>fs' pY pZ ry rz.
      read_points_from_hdf5 ex_fs ''db.hdf5'' (Fin 0) float_nan 1 1 (Fin 7) float_nan
        = (fs', Inr (pY, pZ)) \<and>
      points_value fs' ''db.hdf5'' pY = Inr ry \<and> points_value fs' ''db.hdf5'' pZ = Inr rz \<and>
      nrows ry = 2 \<and> nrows rz = 2) \<and>
   (\<exists>rX rY rZ.
      call (read_velocity_from_hdf5 ''db.hdf5'' (Fin 0) float_nan 1 1 False True) ex_fs 0
        = (ex_fs, Inr (rX, rY, rZ)) \<and>
      nrows rX = 2 \<and> nrows rY = 2 \<and> nrows rZ = 2)"
proof -
  let ?y1 = "\<lparr>ncols = 2, rows = [[Fin 0, Fin 0], [Fin 1, Fin 1], [Fin 2, Fin 2], [Fin 3, Fin 3]]\<rparr>"
  let ?z1 = "\<lparr>ncols = 2, rows = [[Fin 5, Fin 6], [Fin 5, Fin 6], [Fin 7, Fin 8], [Fin 9, Fin 10]]\<rparr>"
  let ?a = "\<lparr>ncols = 2, rows = [[Fin 0, Fin 0], [Fin 8, Fin 8], [Fin 2, Fin 2], [Fin 4, Fin 4]]\<rparr>"
  have p: "ex_fs ''db.hdf5'' = Some ex_file"
    "load_points ex_file = Inr (Dataset ''pointsY'', Dataset ''pointsZ'')"
    "add_points ex_file (Fin 0) float_nan (Dataset ''pointsY'', Dataset ''pointsZ'')
       = Inr (Ndarray ?y1, Ndarray ?z1)"
    "arr_read ex_file (Ndarray ?y1) = Inr ?y1" "arr_read ex_file (Ndarray ?z1) = Inr ?z1"
    "nrows ?z1 = nrows ?y1" "(0::int) \<le> 1" "(1::int) + 1 < int (nrows ?y1)"
    by (simp_all add: points_run eval_nat_numeral)
  have v: "load_velocity ex_file 0 = Inr (ex_u, ex_u, ex_u)"
    "add_velocity (Fin 0) float_nan (ex_u, ex_u, ex_u) = Inr (?a, ?a, ?a)"
    "(1::int) + 1 < int (nrows ?a)"
    by (simp_all add: velocity_run eval_nat_numeral)
  note inst = returned_row_count [where fs = ex_fs and readPath = "''db.hdf5''" and f = ex_file
      and excludeTop = 1 and excludeBot = 1 and addValBot = "Fin 0" and addValTop = float_nan
      and ?p0.0 = "(Dataset ''pointsY'', Dataset ''pointsZ'')"
      and ?pY1.0 = "Ndarray ?y1" and ?pZ1.0 = "Ndarray ?z1" and ?y1.0 = ?y1 and ?z1.0 = ?z1
      and exchangeValBot = "Fin 7" and exchangeValTop = float_nan
      and timeIndex = 0 and ?u0.0 = "(ex_u, ex_u, ex_u)" and aX = ?a and aY = ?a and aZ = ?a
      and interpValBot = False and interpValTop = True]
  from inst [THEN conjunct1] p
  have 1: "\<exists>fs' pY pZ ry rz.
      read_points_from_hdf5 ex_fs ''db.hdf5'' (Fin 0) float_nan 1 1 (Fin 7) float_nan
        = (fs', Inr (pY, pZ)) \<and>
      points_value fs' ''db.hdf5'' pY = Inr ry \<and> points_value fs' ''db.hdf5'' pZ = Inr rz \<and>
      nrows ry = 2 \<and> nrows rz = 2"
    by (simp add: nrows_def)
  from inst [THEN conjunct2] p(1) v
  have 2: "\<exists>rX rY rZ.
      call (read_velocity_from_hdf5 ''db.hdf5'' (Fin 0) float_nan 1 1 False True) ex_fs 0
        = (ex_fs, Inr (rX, rY, rZ)) \<and>
      nrows rX = 2 \<and> nrows rY = 2 \<and> nrows rZ = 2"
    by (simp add: nrows_def)
  from 1 2 show ?thesis by (rule conjI)
qed

section \<open>The exchange step\<close>

lemma fill_row_empty: "rows a = [] \<Longrightarrow> fill_row a i v = Inl IndexError"
  by (simp add: fill_row_def set_row_def norm_index_def nrows_def)

lemma exchange_Inr:
  assumes "(case (if isnan xB then Inr a else fill_row a 0 xB) of
              Inl e \<Rightarrow> Inl e
            | Inr y' \<Rightarrow> (if isnan xT then Inr y' else fill_row y' (- 1) xT)) = Inr y3"
  shows "ncols y3 = ncols a \<and> nrows y3 = nrows a \<and>
         (\<forall>i < nrows a. rows y3 ! i =
            (if \<not> isnan xT \<and> i = nrows a - 1 then replicate (ncols a) xT
             else if \<not> isnan xB \<and> i = 0 then replicate (ncols a) xB
             else rows a ! i))"
proof (cases "rows a = []")
  case True
  with assms show ?thesis
    by (auto simp: fill_row_empty nrows_def split: if_splits)
next
  case False
  from assms [unfolded exchange_ok [where xB = xB and xT = xT, OF False]]
  show ?thesis
    by (auto simp: nrows_def Let_def nth_list_update)
qed

lemma cap_array_shape:
  "ncols (cap_array eB eT t a) = ncols a"
  "nrows a = nrows b \<Longrightarrow> nrows (cap_array eB eT t a) = nrows (cap_array eB eT t b)"
  by (simp_all add: cap_array_def rows_upto_def rows_from_def nrows_def Let_def)

lemma exchange_step_content:
  assumes opened: "fs readPath = Some f"
    and load: "load_points f = Inr p0"
    and pad: "add_points f addValBot addValTop p0 = Inr p1"
    and cap: "cap_points f excludeBot excludeTop p1 = Inr (pY2, pZ2)"
    and y2: "arr_read f pY2 = Inr y2" and z2: "arr_read f pZ2 = Inr z2"
    and ret: "read_points_from_hdf5 fs readPath addValBot addValTop excludeBot excludeTop
                exchangeValBot exchangeValTop = (fs', Inr (pY, pZ))"
  shows "(\<exists>fs0 pY0 pZ0.
            read_points_from_hdf5 fs readPath addValBot addValTop excludeBot excludeTop
                float_nan float_nan = (fs0, Inr (pY0, pZ0)) \<and>
            points_value fs0 readPath pY0 = Inr y2 \<and> points_value fs0 readPath pZ0 = Inr z2) \<and>
         (\<exists>y3. points_value fs' readPath pY = Inr y3 \<and>
            points_value fs' readPath pZ = Inr z2 \<and>
            ncols y3 = ncols y2 \<and> nrows y3 = nrows y2 \<and>
            (\<forall>i < nrows y2. rows y3 ! i =
               (if \<not> isnan exchangeValTop \<and> i = nrows y2 - 1
                  then replicate (ncols y2) exchangeValTop
                else if \<not> isnan exchangeValBot \<and> i = 0
                  then replicate (ncols y2) exchangeValBot
                else rows y2 ! i)))"
proof
  from read_points_staged [where fs = fs and readPath = readPath and xB = float_nan
      and xT = float_nan and ex = "Inr y2", OF opened load pad cap y2 z2]
  show "\<exists>fs0 pY0 pZ0.
            read_points_from_hdf5 fs readPath addValBot addValTop excludeBot excludeTop
                float_nan float_nan = (fs0, Inr (pY0, pZ0)) \<and>
            points_value fs0 readPath pY0 = Inr y2 \<and> points_value fs0 readPath pZ0 = Inr z2"
    by (simp add: float_nan_def)
next
  define ex where "ex = (case (if isnan exchangeValBot then Inr y2
                                else fill_row y2 0 exchangeValBot) of
              Inl e \<Rightarrow> Inl e
            | Inr y' \<Rightarrow> (if isnan exchangeValTop then Inr y'
                          else fill_row y' (- 1) exchangeValTop))"
  note st = read_points_staged [where fs = fs and readPath = readPath
      and xB = exchangeValBot and xT = exchangeValTop, OF opened load pad cap y2 z2 ex_def]
  obtain y3 where y3: "ex = Inr y3"
    using st ret by (cases ex) auto
  with st ret have v: "points_value fs' readPath pY = Inr y3"
      "points_value fs' readPath pZ = Inr z2"
    by auto
  from exchange_Inr [OF y3 [unfolded ex_def]] v
  show "\<exists>y3. points_value fs' readPath pY = Inr y3 \<and>
            points_value fs' readPath pZ = Inr z2 \<and>
            ncols y3 = ncols y2 \<and> nrows y3 = nrows y2 \<and>
            (\<forall>i < nrows y2. rows y3 ! i =
               (if \<not> isnan exchangeValTop \<and> i = nrows y2 - 1
                  then replicate (ncols y2) exchangeValTop
                else if \<not> isnan exchangeValBot \<and> i = 0
                  then replicate (ncols y2) exchangeValBot
                else rows y2 ! i))"
    by blast
qed


text \<open>
  C6. Let \<open>y2\<close> and \<open>z2\<close> be what \<open>pointsY\<close> and \<open>pointsZ\<close> hold when the exchange step
  is reached; this is what the call without the two exchange parameters returns. For a
  call that returns, the returned \<open>pointsZ\<close> is \<open>z2\<close>, and the returned \<open>pointsY\<close> has
  the shape of \<open>y2\<close> and its rows, except that row 0 is filled with \<open>exchangeValBot\<close>
  when that is set and the last row is filled with \<open>exchangeValTop\<close> when that is set
  (the last row wins when there is one row only).
\<close>

theorem exchange_only_boundary_rows:
  assumes opened: "fs readPath = Some f"
    and load: "load_points f = Inr p0"
    and pad: "add_points f addValBot addValTop p0 = Inr p1"
    and cap: "cap_points f excludeBot excludeTop p1 = Inr (pY2, pZ2)"
    and y2: "arr_read f pY2 = Inr y2" and z2: "arr_read f pZ2 = Inr z2"
    and ret: "read_points_from_hdf5 fs readPath addValBot addValTop excludeBot excludeTop
                exchangeValBot exchangeValTop = (fs', Inr (pY, pZ))"
  shows "(\<exists>fs0 pY0 pZ0.
            read_points_from_hdf5 fs readPath addValBot addValTop excludeBot excludeTop
                float_nan float_nan = (fs0, Inr (pY0, pZ0)) \<and>
            points_value fs0 readPath pY0 = Inr y2 \<and> points_value fs0 readPath pZ0 = Inr z2) \<and>
         (\<exists>y3. points_value fs' readPath pY = Inr y3 \<and>
            points_value fs' readPath pZ = Inr z2 \<and>
            ncols y3 = ncols y2 \<and> nrows y3 = nrows y2 \<and>
            (\<forall>i < nrows y2. rows y3 ! i =
               (if \<not> isnan exchangeValTop \<and> i = nrows y2 - 1
                  then replicate (ncols y2) exchangeValTop
                else if \<not> isnan exchangeValBot \<and> i = 0
                  then replicate (ncols y2) exchangeValBot
                else rows y2 ! i)))"
  by (rule exchange_step_content [where fs = fs and readPath = readPath, OF assms])

theorem exchange_only_boundary_rows_witness:
  "read_points_from_hdf5 ex_fs ''db.hdf5'' float_nan float_nan 0 1 (Fin 7) (Fin 9) =
     (ex_fs, Inr (Ndarray \<lparr>ncols = 2, rows = [[Fin 7, Fin 7], [Fin 9, Fin 9]]\<rparr>,
                  Ndarray \<lparr>ncols = 2, rows = [[Fin 5, Fin 6], [Fin 7, Fin 8]]\<rparr>)) \<and>
   (\<exists>y3. points_value ex_fs ''db.hdf5''
             (Ndarray \<lparr>ncols = 2, rows = [[Fin 7, Fin 7], [Fin 9, Fin 9]]\<rparr>) = Inr y3 \<and>
      ncols y3 = 2 \<and> nrows y3 = 2 \<and>
      rows y3 ! 0 = replicate 2 (Fin 7) \<and> rows y3 ! 1 = replicate 2 (Fin 9))"
proof -
  let ?y2 = "\<lparr>ncols = 2, rows = [[Fin 1, Fin 1], [Fin 2, Fin 2]]\<rparr>"
  let ?z2 = "\<lparr>ncols = 2, rows = [[Fin 5, Fin 6], [Fin 7, Fin 8]]\<rparr>"
  let ?y3 = "\<lparr>ncols = 2, rows = [[Fin 7, Fin 7], [Fin 9, Fin 9]]\<rparr>"
  let ?p = "(Dataset ''pointsY'', Dataset ''pointsZ'')"
  have h: "ex_fs ''db.hdf5'' = Some ex_file" "load_points ex_file = Inr ?p"
    "add_points ex_file float_nan float_nan ?p = Inr ?p"
    "cap_points ex_file 0 1 ?p = Inr (Ndarray ?y2, Ndarray ?z2)"
    "arr_read ex_file (Ndarray ?y2) = Inr ?y2" "arr_read ex_file (Ndarray ?z2) = Inr ?z2"
    by (simp_all add: points_run)
  have ret: "read_points_from_hdf5 ex_fs ''db.hdf5'' float_nan float_nan 0 1 (Fin 7) (Fin 9) =
     (ex_fs, Inr (Ndarray ?y3, Ndarray ?z2))"
    by (simp add: points_run eval_nat_numeral)
  from exchange_only_boundary_rows [where fs = ex_fs and readPath = "''db.hdf5''", OF h ret]
  obtain y3 where "points_value ex_fs ''db.hdf5'' (Ndarray ?y3) = Inr y3"
    "ncols y3 = ncols ?y2" "nrows y3 = nrows ?y2"
    "\<forall>i < nrows ?y2. rows y3 ! i =
               (if \<not> isnan (Fin 9) \<and> i = nrows ?y2 - 1 then replicate (ncols ?y2) (Fin 9)
                else if \<not> isnan (Fin 7) \<and> i = 0 then replicate (ncols ?y2) (Fin 7)
                else rows ?y2 ! i)"
    by blast
  then have "points_value ex_fs ''db.hdf5'' (Ndarray ?y3) = Inr y3 \<and>
      ncols y3 = 2 \<and> nrows y3 = 2 \<and>
      rows y3 ! 0 = replicate 2 (Fin 7) \<and> rows y3 ! 1 = replicate 2 (Fin 9)"
    by (simp add: nrows_def)
  with ret show ?thesis by blast
qed

section \<open>The shape invariant of the points reader\<close>

lemma add_points_shape:
  assumes Y: "points_lookup f ''pointsY'' = Inr y" and Z: "points_lookup f ''pointsZ'' = Inr z"
    and pad: "add_points f aB aT (Dataset ''pointsY'', Dataset ''pointsZ'') = Inr (pY1, pZ1)"
  shows "\<exists>y1 z1. arr_read f pY1 = Inr y1 \<and> arr_read f pZ1 = Inr z1 \<and>
           ncols y1 = ncols y \<and> ncols z1 = ncols z \<and>
           nrows y1 = nrows y + (if isnan aB then 0 else 1) + (if isnan aT then 0 else 1) \<and>
           nrows z1 = nrows z + (if isnan aB then 0 else 1) + (if isnan aT then 0 else 1)"
  using pad Y Z
    add_points_eq [of f "Dataset ''pointsY''" y "Dataset ''pointsZ''" z aB aT]
  by (auto simp: nrows_def split: if_splits)

lemma read_points_returns_stages:
  assumes "fs readPath = Some f"
    and "read_points_from_hdf5 fs readPath aB aT eB eT xB xT = (fs', Inr (pY, pZ))"
  shows "\<exists>p0 p1 pY2 pZ2. load_points f = Inr p0 \<and> add_points f aB aT p0 = Inr p1 \<and>
           cap_points f eB eT p1 = Inr (pY2, pZ2)"
  using assms
  by (auto simp: read_points_from_hdf5_def h5_File_def split: sum.splits prod.splits)

text \<open>
  C7. Shape invariant of the points reader. When the stored \<open>pointsY\<close> and \<open>pointsZ\<close>
  have the same shape, the two variables hold arrays of the same shape after the padding
  step, after the trimming step, and in the returned pair (that is, after the exchange
  step), for every choice of the six parameters. A step that raises has no arrays.
\<close>

theorem points_same_shape:
  assumes opened: "fs readPath = Some f"
    and load: "load_points f = Inr (pY0, pZ0)"
    and y0: "arr_read f pY0 = Inr y0" and z0: "arr_read f pZ0 = Inr z0"
    and eq: "shape z0 = shape y0"
  shows "(add_points f addValBot addValTop (pY0, pZ0) = Inr (pY1, pZ1) \<longrightarrow>
            (\<exists>y1 z1. arr_read f pY1 = Inr y1 \<and> arr_read f pZ1 = Inr z1 \<and> shape z1 = shape y1)) \<and>
         (add_points f addValBot addValTop (pY0, pZ0) = Inr (pY1, pZ1) \<and>
          cap_points f excludeBot excludeTop (pY1, pZ1) = Inr (pY2, pZ2) \<longrightarrow>
            (\<exists>y2 z2. arr_read f pY2 = Inr y2 \<and> arr_read f pZ2 = Inr z2 \<and> shape z2 = shape y2)) \<and>
         (read_points_from_hdf5 fs readPath addValBot addValTop excludeBot excludeTop
              exchangeValBot exchangeValTop = (fs', Inr (pY, pZ)) \<longrightarrow>
            (\<exists>y3 z3. points_value fs' readPath pY = Inr y3 \<and>
               points_value fs' readPath pZ = Inr z3 \<and> shape z3 = shape y3))"
proof -
  from load obtain y z where Y: "points_lookup f ''pointsY'' = Inr y"
    and Z: "points_lookup f ''pointsZ'' = Inr z"
    and p0: "(pY0, pZ0) = (Dataset ''pointsY'', Dataset ''pointsZ'')"
    by (rule load_points_Inr)
  from p0 y0 z0 Y Z eq have yz: "shape z = shape y"
    by simp
  have padded: "\<exists>y1 z1. arr_read f a = Inr y1 \<and> arr_read f b = Inr z1 \<and> shape z1 = shape y1"
    if "add_points f addValBot addValTop (pY0, pZ0) = Inr (a, b)" for a b
    using add_points_shape [OF Y Z that [unfolded p0]] yz
    by (auto simp: shape_def)
  have capped: "\<exists>y2 z2. arr_read f c = Inr y2 \<and> arr_read f d = Inr z2 \<and> shape z2 = shape y2"
    if pad: "add_points f addValBot addValTop (pY0, pZ0) = Inr (a, b)"
      and cap: "cap_points f excludeBot excludeTop (a, b) = Inr (c, d)" for a b c d
  proof -
    from padded [OF pad] obtain y1 z1 where r: "arr_read f a = Inr y1" "arr_read f b = Inr z1"
      and s: "shape z1 = shape y1"
      by blast
    let ?t = "int (nrows y1) - excludeTop"
    from s have n: "nrows z1 = nrows y1" and c: "ncols z1 = ncols y1"
      by (simp_all add: shape_def)
    have "shape (cap_array excludeBot excludeTop ?t z1) = shape (cap_array excludeBot excludeTop ?t y1)"
      using cap_array_shape(2) [OF n, of excludeBot excludeTop ?t] c
      by (simp add: shape_def cap_array_shape(1))
    with cap_points_content [OF r, of excludeBot excludeTop] cap show ?thesis
      by auto
  qed
  have final: "\<exists>y3 z3. points_value fs' readPath pY = Inr y3 \<and>
               points_value fs' readPath pZ = Inr z3 \<and> shape z3 = shape y3"
    if ret: "read_points_from_hdf5 fs readPath addValBot addValTop excludeBot excludeTop
              exchangeValBot exchangeValTop = (fs', Inr (pY, pZ))"
  proof -
    from read_points_returns_stages [OF opened ret] load
    obtain p1 c d where pad: "add_points f addValBot addValTop (pY0, pZ0) = Inr p1"
      and cap: "cap_points f excludeBot excludeTop p1 = Inr (c, d)"
      by auto
    from capped [of "fst p1" "snd p1" c d] pad cap
    obtain y2 z2 where r: "arr_read f c = Inr y2" "arr_read f d = Inr z2"
      and s: "shape z2 = shape y2"
      by auto
    from exchange_step_content [where fs = fs and readPath = readPath,
        OF opened load pad cap r ret] s
    show ?thesis
      by (auto simp: shape_def)
  qed
  from padded capped final show ?thesis
    by blast
qed


theorem points_same_shape_witness:
  "shape ex_pointsZ = shape ex_pointsY \<and>
   (\<exists>y1 z1.
      add_points ex_file (Fin 0) float_nan (Dataset ''pointsY'', Dataset ''pointsZ'')
        = Inr (Ndarray y1, Ndarray z1) \<and> shape z1 = shape y1 \<and>
      (\<exists>y2 z2.
         cap_points ex_file 0 1 (Ndarray y1, Ndarray z1) = Inr (Ndarray y2, Ndarray z2) \<and>
         shape z2 = shape y2)) \<and>
   (\<exists>y3 z3.
      read_points_from_hdf5 ex_fs ''db.hdf5'' (Fin 0) float_nan 0 1 float_nan (Fin 9)
        = (ex_fs, Inr (Ndarray y3, Ndarray z3)) \<and> shape z3 = shape y3)"
proof -
  let ?p = "(Dataset ''pointsY'', Dataset ''pointsZ'')"
  let ?y1 = "\<lparr>ncols = 2, rows = [[Fin 0, Fin 0], [Fin 1, Fin 1], [Fin 2, Fin 2], [Fin 3, Fin 3]]\<rparr>"
  let ?z1 = "\<lparr>ncols = 2, rows = [[Fin 5, Fin 6], [Fin 5, Fin 6], [Fin 7, Fin 8], [Fin 9, Fin 10]]\<rparr>"
  let ?y2 = "\<lparr>ncols = 2, rows = [[Fin 0, Fin 0], [Fin 1, Fin 1], [Fin 2, Fin 2]]\<rparr>"
  let ?z2 = "\<lparr>ncols = 2, rows = [[Fin 5, Fin 6], [Fin 5, Fin 6], [Fin 7, Fin 8]]\<rparr>"
  let ?y3 = "\<lparr>ncols = 2, rows = [[Fin 0, Fin 0], [Fin 1, Fin 1], [Fin 9, Fin 9]]\<rparr>"
  have h: "ex_fs ''db.hdf5'' = Some ex_file" "load_points ex_file = Inr ?p"
    "arr_read ex_file (Dataset ''pointsY'') = Inr ex_pointsY"
    "arr_read ex_file (Dataset ''pointsZ'') = Inr ex_pointsZ"
    "shape ex_pointsZ = shape ex_pointsY"
    by (simp_all add: points_run shape_def)
  have pad: "add_points ex_file (Fin 0) float_nan ?p = Inr (Ndarray ?y1, Ndarray ?z1)"
    by (simp add: points_run eval_nat_numeral)
  have cap: "cap_points ex_file 0 1 (Ndarray ?y1, Ndarray ?z1) = Inr (Ndarray ?y2, Ndarray ?z2)"
    by (simp add: points_run)
  have ret: "read_points_from_hdf5 ex_fs ''db.hdf5'' (Fin 0) float_nan 0 1 float_nan (Fin 9)
        = (ex_fs, Inr (Ndarray ?y3, Ndarray ?z2))"
    by (simp add: points_run eval_nat_numeral)
  note inst = points_same_shape [where fs = ex_fs and readPath = "''db.hdf5''", OF h,
      where addValBot = "Fin 0" and addValTop = float_nan and excludeBot = 0 and excludeTop = 1
        and exchangeValBot = float_nan and exchangeValTop = "Fin 9"
        and ?pY1.0 = "Ndarray ?y1" and ?pZ1.0 = "Ndarray ?z1"
        and ?pY2.0 = "Ndarray ?y2" and ?pZ2.0 = "Ndarray ?z2"
        and fs' = ex_fs and pY = "Ndarray ?y3" and pZ = "Ndarray ?z2"]
  have s1: "shape ?z1 = shape ?y1"
    using inst [THEN conjunct1] pad by auto
  have s2: "shape ?z2 = shape ?y2"
    using inst [THEN conjunct2, THEN conjunct1] pad cap by auto
  have s3: "shape ?z2 = shape ?y3"
    using inst [THEN conjunct2, THEN conjunct2] ret by (auto simp: points_value_def ex_fs_def)
  note s = s1 s2 s3
  have a: "\<exists>y2 z2.
         cap_points ex_file 0 1 (Ndarray ?y1, Ndarray ?z1) = Inr (Ndarray y2, Ndarray z2) \<and>
         shape z2 = shape y2"
    by (rule exI [of _ ?y2], rule exI [of _ ?z2], intro conjI, rule cap, rule s2)
  have b: "\<exists>y1 z1.
      add_points ex_file (Fin 0) float_nan ?p = Inr (Ndarray y1, Ndarray z1) \<and>
      shape z1 = shape y1 \<and>
      (\<exists>y2 z2.
         cap_points ex_file 0 1 (Ndarray y1, Ndarray z1) = Inr (Ndarray y2, Ndarray z2) \<and>
         shape z2 = shape y2)"
    by (rule exI [of _ ?y1], rule exI [of _ ?z1], intro conjI, rule pad, rule s1, rule a)
  have c: "\<exists>y3 z3.
      read_points_from_hdf5 ex_fs ''db.hdf5'' (Fin 0) float_nan 0 1 float_nan (Fin 9)
        = (ex_fs, Inr (Ndarray y3, Ndarray z3)) \<and> shape z3 = shape y3"
    by (rule exI [of _ ?y3], rule exI [of _ ?z2], intro conjI, rule ret, rule s3)
  show ?thesis
    by (intro conjI, rule h(5), rule b, rule c)
qed

section \<open>The padding step of the points reader\<close>

lemma read_points_padding:
  assumes opened: "fs readPath = Some f"
    and Y: "points_lookup f ''pointsY'' = Inr y"
    and Z: "points_lookup f ''pointsZ'' = Inr z"
  shows "(rows z \<noteq> [] \<longrightarrow>
     (\<exists>fs' pY pZ ry rz.
        read_points_from_hdf5 fs readPath addValBot addValTop 0 0 float_nan float_nan
          = (fs', Inr (pY, pZ)) \<and>
        points_value fs' readPath pY = Inr ry \<and> points_value fs' readPath pZ = Inr rz \<and>
        ncols ry = ncols y \<and> ncols rz = ncols z \<and>
        rows ry = (if isnan addValBot then [] else [replicate (ncols y) addValBot]) @ rows y @
                  (if isnan addValTop then [] else [replicate (ncols y) addValTop]) \<and>
        rows rz = (if isnan addValBot then [] else [rows z ! 0]) @ rows z @
                  (if isnan addValTop then [] else [rows z ! 0]))) \<and>
    (rows z = [] \<and> \<not> (isnan addValBot \<and> isnan addValTop) \<longrightarrow>
       read_points_from_hdf5 fs readPath addValBot addValTop 0 0 float_nan float_nan
          = (fs, Inl IndexError))"
proof (intro conjI impI)
  assume ne: "rows z \<noteq> []"
  define y1 where "y1 = \<lparr>ncols = ncols y,
       rows = (if isnan addValBot then [] else [replicate (ncols y) addValBot]) @ rows y @
              (if isnan addValTop then [] else [replicate (ncols y) addValTop])\<rparr>"
  define z1 where "z1 = \<lparr>ncols = ncols z,
       rows = (if isnan addValBot then [] else [rows z ! 0]) @ rows z @
              (if isnan addValTop then [] else [rows z ! 0])\<rparr>"
  have c: "y1 = cap_array 0 0 (int (nrows y1) - 0) y1" "z1 = cap_array 0 0 (int (nrows y1) - 0) z1"
    by (simp_all add: cap_array_none)
  have ex: "Inr y1 = (case (if isnan float_nan then Inr y1 else fill_row y1 0 float_nan) of
                     Inl e \<Rightarrow> Inl e
                   | Inr y' \<Rightarrow> (if isnan float_nan then Inr y' else fill_row y' (- 1) float_nan))"
    by (simp add: float_nan_def)
  from read_points_content [where fs = fs and readPath = readPath and xB = float_nan
      and xT = float_nan and aB = addValBot and aT = addValTop and eB = 0 and eT = 0,
      OF opened Y Z _ y1_def z1_def c ex] ne
  obtain fs' pY pZ where
    "read_points_from_hdf5 fs readPath addValBot addValTop 0 0 float_nan float_nan
          = (fs', Inr (pY, pZ))"
    "points_value fs' readPath pY = Inr y1" "points_value fs' readPath pZ = Inr z1"
    by auto
  then show "\<exists>fs' pY pZ ry rz.
        read_points_from_hdf5 fs readPath addValBot addValTop 0 0 float_nan float_nan
          = (fs', Inr (pY, pZ)) \<and>
        points_value fs' readPath pY = Inr ry \<and> points_value fs' readPath pZ = Inr rz \<and>
        ncols ry = ncols y \<and> ncols rz = ncols z \<and>
        rows ry = (if isnan addValBot then [] else [replicate (ncols y) addValBot]) @ rows y @
                  (if isnan addValTop then [] else [replicate (ncols y) addValTop]) \<and>
        rows rz = (if isnan addValBot then [] else [rows z ! 0]) @ rows z @
                  (if isnan addValTop then [] else [rows z ! 0])"
    by (intro exI [of _ fs'] exI [of _ pY] exI [of _ pZ] exI [of _ y1] exI [of _ z1])
      (simp add: y1_def z1_def)
next
  assume "rows z = [] \<and> \<not> (isnan addValBot \<and> isnan addValTop)"
  then show "read_points_from_hdf5 fs readPath addValBot addValTop 0 0 float_nan float_nan
          = (fs, Inl IndexError)"
    using opened load_points_ok [OF Y Z] Y Z
      add_points_eq [of f "Dataset ''pointsY''" y "Dataset ''pointsZ''" z addValBot addValTop]
    by (auto simp: read_points_from_hdf5_def h5_File_def)
qed


text \<open>
  C3. The rows that the padding step adds, seen in a call that neither trims nor
  exchanges. With \<open>addValBot\<close> set, the prepended row of \<open>pointsY\<close> is filled with
  \<open>addValBot\<close> and the prepended row of \<open>pointsZ\<close> is a copy of its first row. With
  \<open>addValTop\<close> set, the appended row of \<open>pointsY\<close> is filled with \<open>addValTop\<close> and the
  appended row of \<open>pointsZ\<close> is again a copy of the first row of \<open>pointsZ\<close>, not of the
  last one. This holds for every stored array that has a first row; on arrays without
  rows the copy \<open>pointsZ[0, :]\<close> raises IndexError and nothing is returned.
\<close>

theorem padding_rows:
  assumes opened: "fs readPath = Some f"
    and Y: "points_lookup f ''pointsY'' = Inr y"
    and Z: "points_lookup f ''pointsZ'' = Inr z"
  shows "(rows z \<noteq> [] \<longrightarrow>
     (\<exists>fs' pY pZ ry rz.
        read_points_from_hdf5 fs readPath addValBot addValTop 0 0 float_nan float_nan
          = (fs', Inr (pY, pZ)) \<and>
        points_value fs' readPath pY = Inr ry \<and> points_value fs' readPath pZ = Inr rz \<and>
        ncols ry = ncols y \<and> ncols rz = ncols z \<and>
        rows ry = (if isnan addValBot then [] else [replicate (ncols y) addValBot]) @ rows y @
                  (if isnan addValTop then [] else [replicate (ncols y) addValTop]) \<and>
        rows rz = (if isnan addValBot then [] else [rows z ! 0]) @ rows z @
                  (if isnan addValTop then [] else [rows z ! 0]))) \<and>
    (rows z = [] \<and> \<not> (isnan addValBot \<and> isnan addValTop) \<longrightarrow>
       read_points_from_hdf5 fs readPath addValBot addValTop 0 0 float_nan float_nan
          = (fs, Inl IndexError))"
  by (rule read_points_padding [where fs = fs and readPath = readPath, OF assms])

theorem padding_rows_witness:
  "rows ex_pointsZ \<noteq> [] \<and>
   (\<exists>fs' pY pZ ry rz.
      read_points_from_hdf5 ex_fs ''db.hdf5'' (Fin 0) (Fin 4) 0 0 float_nan float_nan
        = (fs', Inr (pY, pZ)) \<and>
      points_value fs' ''db.hdf5'' pY = Inr ry \<and> points_value fs' ''db.hdf5'' pZ = Inr rz \<and>
      ncols ry = 2 \<and> ncols rz = 2 \<and>
      rows ry = [[Fin 0, Fin 0], [Fin 1, Fin 1], [Fin 2, Fin 2], [Fin 3, Fin 3], [Fin 4, Fin 4]] \<and>
      rows rz = [[Fin 5, Fin 6], [Fin 5, Fin 6], [Fin 7, Fin 8], [Fin 9, Fin 10], [Fin 5, Fin 6]]) \<and>
   read_points_from_hdf5 ex_empty_fs ''db.hdf5'' (Fin 0) (Fin 4) 0 0 float_nan float_nan
     = (ex_empty_fs, Inl IndexError)"
proof -
  have h: "ex_fs ''db.hdf5'' = Some ex_file"
    "points_lookup ex_file ''pointsY'' = Inr ex_pointsY"
    "points_lookup ex_file ''pointsZ'' = Inr ex_pointsZ"
    by (simp_all add: ex_fs_def ex_file_def points_lookup_def)
  have e: "ex_empty_fs ''db.hdf5'' = Some ex_empty_file"
    "points_lookup ex_empty_file ''pointsY'' = Inr \<lparr>ncols = 2, rows = []\<rparr>"
    "points_lookup ex_empty_file ''pointsZ'' = Inr \<lparr>ncols = 2, rows = []\<rparr>"
    by (simp_all add: ex_empty_fs_def ex_empty_file_def points_lookup_def)
  have ne: "rows ex_pointsZ \<noteq> []"
    by (simp add: ex_pointsZ_def)
  from padding_rows [where fs = ex_fs and readPath = "''db.hdf5''", OF h,
      where addValBot = "Fin 0" and addValTop = "Fin 4", THEN conjunct1] ne
  have 1: "\<exists>fs' pY pZ ry rz.
      read_points_from_hdf5 ex_fs ''db.hdf5'' (Fin 0) (Fin 4) 0 0 float_nan float_nan
        = (fs', Inr (pY, pZ)) \<and>
      points_value fs' ''db.hdf5'' pY = Inr ry \<and> points_value fs' ''db.hdf5'' pZ = Inr rz \<and>
      ncols ry = 2 \<and> ncols rz = 2 \<and>
      rows ry = [[Fin 0, Fin 0], [Fin 1, Fin 1], [Fin 2, Fin 2], [Fin 3, Fin 3], [Fin 4, Fin 4]] \<and>
      rows rz = [[Fin 5, Fin 6], [Fin 5, Fin 6], [Fin 7, Fin 8], [Fin 9, Fin 10], [Fin 5, Fin 6]]"
    by (simp add: ex_pointsY_def ex_pointsZ_def eval_nat_numeral)
  from padding_rows [where fs = ex_empty_fs and readPath = "''db.hdf5''", OF e,
      where addValBot = "Fin 0" and addValTop = "Fin 4", THEN conjunct2]
  have 2: "read_points_from_hdf5 ex_empty_fs ''db.hdf5'' (Fin 0) (Fin 4) 0 0 float_nan float_nan
     = (ex_empty_fs, Inl IndexError)"
    by simp
  show ?thesis
    by (intro conjI, rule ne, rule 1, rule 2)
qed

section \<open>Padding and trimming the same row\<close>

lemma read_points_plain_content:
  assumes opened: "fs readPath = Some f"
    and Y: "points_lookup f ''pointsY'' = Inr y"
    and Z: "points_lookup f ''pointsZ'' = Inr z"
    and nonempty: "isnan aB \<and> isnan aT \<or> rows z \<noteq> []"
    and y2: "cap_array eB eT (int (nrows y) + (if isnan aB then 0 else 1)
                 + (if isnan aT then 0 else 1) - eT)
               \<lparr>ncols = ncols y,
                 rows = (if isnan aB then [] else [replicate (ncols y) aB]) @ rows y @
                        (if isnan aT then [] else [replicate (ncols y) aT])\<rparr> = y2"
    and z2: "cap_array eB eT (int (nrows y) + (if isnan aB then 0 else 1)
                 + (if isnan aT then 0 else 1) - eT)
               \<lparr>ncols = ncols z,
                 rows = (if isnan aB then [] else [rows z ! 0]) @ rows z @
                        (if isnan aT then [] else [rows z ! 0])\<rparr> = z2"
  shows "\<exists>fs' pY pZ.
     read_points_from_hdf5 fs readPath aB aT eB eT float_nan float_nan = (fs', Inr (pY, pZ)) \<and>
     points_value fs' readPath pY = Inr y2 \<and> points_value fs' readPath pZ = Inr z2"
proof -
  define y1 where "y1 = \<lparr>ncols = ncols y,
                 rows = (if isnan aB then [] else [replicate (ncols y) aB]) @ rows y @
                        (if isnan aT then [] else [replicate (ncols y) aT])\<rparr>"
  define z1 where "z1 = \<lparr>ncols = ncols z,
                 rows = (if isnan aB then [] else [rows z ! 0]) @ rows z @
                        (if isnan aT then [] else [rows z ! 0])\<rparr>"
  have n: "int (nrows y1) = int (nrows y) + (if isnan aB then 0 else 1)
                 + (if isnan aT then 0 else 1)"
    by (simp add: y1_def nrows_def)
  have c: "y2 = cap_array eB eT (int (nrows y1) - eT) y1"
      "z2 = cap_array eB eT (int (nrows y1) - eT) z1"
    unfolding n unfolding y1_def z1_def by (rule y2 [symmetric], rule z2 [symmetric])
  have ex: "Inr y2 = (case (if isnan float_nan then Inr y2 else fill_row y2 0 float_nan) of
                     Inl e \<Rightarrow> Inl e
                   | Inr y' \<Rightarrow> (if isnan float_nan then Inr y' else fill_row y' (- 1) float_nan))"
    by (simp add: float_nan_def)
  from read_points_content [where fs = fs and readPath = readPath and xB = float_nan
      and xT = float_nan, OF opened Y Z nonempty y1_def z1_def c ex]
  show ?thesis
    by simp
qed

lemma pad_trim_content:
  assumes opened: "fs readPath = Some f"
    and Y: "points_lookup f ''pointsY'' = Inr y"
    and Z: "points_lookup f ''pointsZ'' = Inr z"
    and same: "nrows z = nrows y"
    and ne: "rows z \<noteq> []"
    and v: "\<not> isnan v"
  shows "(\<exists>fs' pY pZ.
     read_points_from_hdf5 fs readPath float_nan float_nan 0 0 float_nan float_nan
       = (fs', Inr (pY, pZ)) \<and>
     points_value fs' readPath pY = Inr y \<and> points_value fs' readPath pZ = Inr z) \<and>
   (\<exists>fs' pY pZ.
     read_points_from_hdf5 fs readPath v float_nan 1 0 float_nan float_nan
       = (fs', Inr (pY, pZ)) \<and>
     points_value fs' readPath pY = Inr y \<and> points_value fs' readPath pZ = Inr z) \<and>
   (\<exists>fs' pY pZ.
     read_points_from_hdf5 fs readPath float_nan v 0 1 float_nan float_nan
       = (fs', Inr (pY, pZ)) \<and>
     points_value fs' readPath pY = Inr y \<and> points_value fs' readPath pZ = Inr z)"
proof (intro conjI)
  show "\<exists>fs' pY pZ.
     read_points_from_hdf5 fs readPath float_nan float_nan 0 0 float_nan float_nan
       = (fs', Inr (pY, pZ)) \<and>
     points_value fs' readPath pY = Inr y \<and> points_value fs' readPath pZ = Inr z"
    by (rule read_points_plain_content [where fs = fs and readPath = readPath, OF opened Y Z])
      (simp_all add: float_nan_def cap_array_none)
  show "\<exists>fs' pY pZ.
     read_points_from_hdf5 fs readPath v float_nan 1 0 float_nan float_nan
       = (fs', Inr (pY, pZ)) \<and>
     points_value fs' readPath pY = Inr y \<and> points_value fs' readPath pZ = Inr z"
    using ne v
    by (intro read_points_plain_content [where fs = fs and readPath = readPath, OF opened Y Z])
      (simp_all add: float_nan_def cap_array_def rows_from_def slice_bound_def nrows_def)
  show "\<exists>fs' pY pZ.
     read_points_from_hdf5 fs readPath float_nan v 0 1 float_nan float_nan
       = (fs', Inr (pY, pZ)) \<and>
     points_value fs' readPath pY = Inr y \<and> points_value fs' readPath pZ = Inr z"
    using ne v same
    by (intro read_points_plain_content [where fs = fs and readPath = readPath, OF opened Y Z])
      (simp_all add: float_nan_def cap_array_def rows_upto_def slice_bound_def nrows_def)
qed


text \<open>
  C5, as amended. Round-trip law of the points reader, for every store whose \<open>pointsY\<close>
  and \<open>pointsZ\<close> have the same number of rows and at least one row, and every value \<open>v\<close>
  that is not NaN: the call with \<open>addValBot = v\<close> and \<open>excludeBot = 1\<close> and no other
  option, and the call with \<open>addValTop = v\<close> and \<open>excludeTop = 1\<close> and no other option,
  return arrays with the content that the call with no option returns, which is the
  stored content. In particular the boundary row on the other side is the stored one.
\<close>

theorem pad_then_trim_roundtrip:
  assumes opened: "fs readPath = Some f"
    and Y: "points_lookup f ''pointsY'' = Inr y"
    and Z: "points_lookup f ''pointsZ'' = Inr z"
    and same: "nrows z = nrows y"
    and ne: "rows z \<noteq> []"
    and v: "\<not> isnan v"
  shows "(\<exists>fs' pY pZ.
     read_points_from_hdf5 fs readPath float_nan float_nan 0 0 float_nan float_nan
       = (fs', Inr (pY, pZ)) \<and>
     points_value fs' readPath pY = Inr y \<and> points_value fs' readPath pZ = Inr z) \<and>
   (\<exists>fs' pY pZ.
     read_points_from_hdf5 fs readPath v float_nan 1 0 float_nan float_nan
       = (fs', Inr (pY, pZ)) \<and>
     points_value fs' readPath pY = Inr y \<and> points_value fs' readPath pZ = Inr z) \<and>
   (\<exists>fs' pY pZ.
     read_points_from_hdf5 fs readPath float_nan v 0 1 float_nan float_nan
       = (fs', Inr (pY, pZ)) \<and>
     points_value fs' readPath pY = Inr y \<and> points_value fs' readPath pZ = Inr z)"
  by (rule pad_trim_content [where fs = fs and readPath = readPath, OF assms])

theorem pad_then_trim_roundtrip_witness:
  "nrows ex_pointsZ = nrows ex_pointsY \<and> rows ex_pointsZ \<noteq> [] \<and> \<not> isnan (Fin 0) \<and>
   read_points_from_hdf5 ex_fs ''db.hdf5'' (Fin 0) float_nan 1 0 float_nan float_nan
     = (ex_fs, Inr (Ndarray ex_pointsY, Ndarray ex_pointsZ)) \<and>
   read_points_from_hdf5 ex_fs ''db.hdf5'' float_nan (Fin 0) 0 1 float_nan float_nan
     = (ex_fs, Inr (Ndarray ex_pointsY, Ndarray ex_pointsZ)) \<and>
   points_value ex_fs ''db.hdf5'' (Ndarray ex_pointsY) = Inr ex_pointsY \<and>
   points_value ex_fs ''db.hdf5'' (Ndarray ex_pointsZ) = Inr ex_pointsZ"
proof -
  have h: "ex_fs ''db.hdf5'' = Some ex_file"
    "points_lookup ex_file ''pointsY'' = Inr ex_pointsY"
    "points_lookup ex_file ''pointsZ'' = Inr ex_pointsZ"
    "nrows ex_pointsZ = nrows ex_pointsY" "rows ex_pointsZ \<noteq> []" "\<not> isnan (Fin 0)"
    by (simp_all add: ex_fs_def ex_file_def points_lookup_def ex_pointsY_def ex_pointsZ_def
        nrows_def)
  have r: "read_points_from_hdf5 ex_fs ''db.hdf5'' (Fin 0) float_nan 1 0 float_nan float_nan
     = (ex_fs, Inr (Ndarray ex_pointsY, Ndarray ex_pointsZ))"
    "read_points_from_hdf5 ex_fs ''db.hdf5'' float_nan (Fin 0) 0 1 float_nan float_nan
     = (ex_fs, Inr (Ndarray ex_pointsY, Ndarray ex_pointsZ))"
    by (simp_all add: points_run eval_nat_numeral)
  from pad_then_trim_roundtrip [where fs = ex_fs and readPath = "''db.hdf5''", OF h] r
  have "points_value ex_fs ''db.hdf5'' (Ndarray ex_pointsY) = Inr ex_pointsY \<and>
        points_value ex_fs ''db.hdf5'' (Ndarray ex_pointsZ) = Inr ex_pointsZ"
    by simp
  with h(4-6) r show ?thesis
    by simp
qed

text \<open>
  The claim as stated ("for every stored array and every value") fails in two places.
  On a store whose arrays have no row, the plain call returns, but the call with
  \<open>addValBot = 0\<close> and \<open>excludeBot = 1\<close> raises IndexError at \<open>pointsZ[0, :]\<close>. And a NaN
  passed as \<open>addValBot\<close> pads nothing, so \<open>excludeBot = 1\<close> removes a stored row.
\<close>

theorem pad_then_trim_counterexample:
  "read_points_from_hdf5 ex_empty_fs ''db.hdf5'' float_nan float_nan 0 0 float_nan float_nan
     = (ex_empty_fs, Inr (Dataset ''pointsY'', Dataset ''pointsZ'')) \<and>
   read_points_from_hdf5 ex_empty_fs ''db.hdf5'' (Fin 0) float_nan 1 0 float_nan float_nan
     = (ex_empty_fs, Inl IndexError) \<and>
   read_points_from_hdf5 ex_fs ''db.hdf5'' (NaN 1) float_nan 1 0 float_nan float_nan
     = (ex_fs, Inr (Ndarray \<lparr>ncols = 2, rows = [[Fin 2, Fin 2], [Fin 3, Fin 3]]\<rparr>,
                    Ndarray \<lparr>ncols = 2, rows = [[Fin 7, Fin 8], [Fin 9, Fin 10]]\<rparr>)) \<and>
   points_value ex_fs ''db.hdf5'' (Dataset ''pointsY'')
     = Inr \<lparr>ncols = 2, rows = [[Fin 1, Fin 1], [Fin 2, Fin 2], [Fin 3, Fin 3]]\<rparr>"
  by (simp add: points_run ex_empty_fs_def ex_empty_file_def)

section \<open>Writes to the store\<close>

text \<open>
  C4. The claim says that no call modifies the store. The velocity closure does not
  (\<open>read_keeps_filesystem\<close>). The points reader opens its file in mode \<open>'a'\<close> and keeps
  the dataset handles when it neither pads nor trims; the exchange of lines 88--92 is
  then an assignment to the dataset. Here the call with \<open>exchangeValBot = 7\<close> alone
  returns the two handles and leaves row 0 of the stored \<open>pointsY\<close> overwritten with 7.
\<close>

theorem exchange_writes_store:
  "points_value ex_fs ''db.hdf5'' (Dataset ''pointsY'')
     = Inr \<lparr>ncols = 2, rows = [[Fin 1, Fin 1], [Fin 2, Fin 2], [Fin 3, Fin 3]]\<rparr> \<and>
   snd (read_points_from_hdf5 ex_fs ''db.hdf5'' float_nan float_nan 0 0 (Fin 7) float_nan)
     = Inr (Dataset ''pointsY'', Dataset ''pointsZ'') \<and>
   points_value
       (fst (read_points_from_hdf5 ex_fs ''db.hdf5'' float_nan float_nan 0 0 (Fin 7) float_nan))
       ''db.hdf5'' (Dataset ''pointsY'')
     = Inr \<lparr>ncols = 2, rows = [[Fin 7, Fin 7], [Fin 2, Fin 2], [Fin 3, Fin 3]]\<rparr> \<and>
   fst (read_points_from_hdf5 ex_fs ''db.hdf5'' float_nan float_nan 0 0 (Fin 7) float_nan)
     \<noteq> ex_fs"
proof -
  have a: "points_value ex_fs ''db.hdf5'' (Dataset ''pointsY'')
     = Inr \<lparr>ncols = 2, rows = [[Fin 1, Fin 1], [Fin 2, Fin 2], [Fin 3, Fin 3]]\<rparr>"
    by (simp add: points_run)
  have b: "snd (read_points_from_hdf5 ex_fs ''db.hdf5'' float_nan float_nan 0 0 (Fin 7) float_nan)
     = Inr (Dataset ''pointsY'', Dataset ''pointsZ'')"
    by (simp add: points_run eval_nat_numeral)
  have c: "points_value
       (fst (read_points_from_hdf5 ex_fs ''db.hdf5'' float_nan float_nan 0 0 (Fin 7) float_nan))
       ''db.hdf5'' (Dataset ''pointsY'')
     = Inr \<lparr>ncols = 2, rows = [[Fin 7, Fin 7], [Fin 2, Fin 2], [Fin 3, Fin 3]]\<rparr>"
    by (simp add: points_run eval_nat_numeral)
  from a c have d:
    "fst (read_points_from_hdf5 ex_fs ''db.hdf5'' float_nan float_nan 0 0 (Fin 7) float_nan)
       \<noteq> ex_fs"
    by auto
  from a b c d show ?thesis by (intro conjI)
qed

text \<open>
  C8. On a path that does not exist the velocity closure fails in \<open>h5py.File\<close> (mode
  \<open>'r'\<close>) and leaves the file system as it was. The points reader opens the path in mode
  \<open>'a'\<close>: the open succeeds by creating an empty file, the access to the group \<open>points\<close>
  then raises KeyError, and the new file stays behind.
\<close>

theorem missing_path_creates_file:
  "ex_fs ''missing.hdf5'' = None \<and>
   read_points_from_hdf5 ex_fs ''missing.hdf5'' float_nan float_nan 0 0 float_nan float_nan
     = (ex_fs(''missing.hdf5'' \<mapsto> empty_file), Inl KeyError) \<and>
   call (read_velocity_from_hdf5 ''missing.hdf5'' float_nan float_nan 0 0 False False) ex_fs 0
     = (ex_fs, Inl OSError)"
proof -
  have a: "ex_fs ''missing.hdf5'' = None"
    by (simp add: ex_fs_def)
  have b: "read_points_from_hdf5 ex_fs ''missing.hdf5'' float_nan float_nan 0 0 float_nan float_nan
     = (ex_fs(''missing.hdf5'' \<mapsto> empty_file), Inl KeyError)"
    by (simp add: points_run empty_file_def)
  have c: "call (read_velocity_from_hdf5 ''missing.hdf5'' float_nan float_nan 0 0 False False)
       ex_fs 0 = (ex_fs, Inl OSError)"
    by (simp add: velocity_run)
  from a b c show ?thesis by (intro conjI)
qed

end
